theory Spec2Isabelle
  imports Main "HOL-Library.Word"
begin

section \<open>Handles, driver calls and errors\<close>

text \<open>
  The engine of \<^verbatim>\<open>gpgpu_context.ts\<close> and \<^verbatim>\<open>gpgpu_math.ts\<close> drives a WebGL rendering
  context through the helper modules \<^verbatim>\<open>webgl_util\<close>, \<^verbatim>\<open>gpgpu_util\<close> and \<^verbatim>\<open>tex_util\<close>.
  Those modules are outside the verified sources, so every call into them (and every
  direct \<^verbatim>\<open>gl.*\<close> call wrapped in \<^verbatim>\<open>callAndCheck\<close>) is recorded as one \<open>gl_call\<close> in
  the order it is issued, and the driver's answers are parameters of the model (\<open>env\<close>).

  JavaScript numbers that hold sizes and coordinates are modelled as \<open>int\<close>; opaque
  WebGL objects (textures, programs, buffers, shaders, uniform locations) as handles.
  The elements of a \<^verbatim>\<open>Float32Array\<close> are only moved, never computed with, so they are
  kept as their 32-bit patterns.
\<close>

type_synonym WebGLTexture = nat
type_synonym WebGLProgram = nat
type_synonym WebGLBuffer = nat
type_synonym WebGLFramebuffer = nat
type_synonym WebGLShader = nat
type_synonym PixelSource = nat
type_synonym float32 = "32 word"

datatype buffer_target = ARRAY_BUFFER | ELEMENT_ARRAY_BUFFER

datatype gl_call =
    Finish
  | BindFramebuffer "WebGLFramebuffer option"
  | DeleteFramebuffer WebGLFramebuffer
  | BindBuffer buffer_target "WebGLBuffer option"
  | DeleteBuffer WebGLBuffer
  | LoseContext
  | EnableDebugWebGLErrorChecking bool
  | CreateMatrixTexture int int
  | CreatePackedMatrixTexture int int
  | UploadPixelDataToTexture WebGLTexture PixelSource
  | UnbindColorTextureFromFramebuffer WebGLFramebuffer
  | BindColorTextureToFramebuffer WebGLTexture WebGLFramebuffer
  | DeleteTexture WebGLTexture
  | UploadMatrixToTexture WebGLTexture int int "float32 list" int
  | UploadMatrixToPackedTexture WebGLTexture int int "float32 list"
  | DownloadMatrixFromOutputTexture int int
  | DownloadMatrixFromPackedOutputTexture int int
  | CreateFragmentShader string
  | CreateVertexShader
  | CreateProgram
  | AttachShader WebGLProgram WebGLShader
  | LinkProgram WebGLProgram
  | ValidateProgram WebGLProgram
  | ValidateFramebuffer
  | DeleteProgram WebGLProgram
  | UseProgram "WebGLProgram option"
  | GetProgramUniformLocationOrThrow "WebGLProgram option" string
  | BindTextureToProgramUniformSampler "WebGLProgram option" WebGLTexture "string option" int
  | BindVertexProgramAttributeStreams "WebGLProgram option" WebGLBuffer
  | Viewport int int int int
  | Scissor int int int int
  | DrawElementsTriangles nat nat

text \<open>
  \<open>Error msg\<close> is a JavaScript \<^verbatim>\<open>Error\<close> thrown by the verified sources with that
  message. \<open>DriverError call\<close> is whatever a helper of the absent modules throws while
  serving \<open>call\<close>; \<open>CompilerError msg\<close> is what the absent shader compiler throws.
\<close>

datatype error =
    Error string
  | DriverError gl_call
  | CompilerError string

text \<open>
  The answers of the absent modules. \<open>rejects env history call\<close> says that the helper
  (or \<^verbatim>\<open>callAndCheck\<close>) throws for \<open>call\<close> after the calls in \<open>history\<close>;
  \<open>handle\<close> is the object a creating call returns, \<open>pixels\<close> the buffer a download
  returns, and \<open>getPackedMatrixTextureShapeWidthHeight\<close> stands for the function of that
  name in \<^verbatim>\<open>tex_util\<close>.
\<close>

record env =
  rejects :: "gl_call list \<Rightarrow> gl_call \<Rightarrow> bool"
  handle :: "gl_call list \<Rightarrow> gl_call \<Rightarrow> nat"
  pixels :: "gl_call list \<Rightarrow> gl_call \<Rightarrow> float32 list"
  getPackedMatrixTextureShapeWidthHeight :: "int \<Rightarrow> int \<Rightarrow> int \<times> int"

definition accepts :: "env \<Rightarrow> bool" where
  "accepts e = (\<forall>h call. \<not> rejects e h call)"

section \<open>The GPU context (class GPGPUContext)\<close>

text \<open>
  The fields of the class. \<open>gl\<close> holds the calls issued to the rendering context
  since the constructor returned, oldest first; \<open>console\<close> the messages passed to
  \<^verbatim>\<open>console.warn\<close>, kept with the state so that an operation's diagnostics are part of
  its result. The extension objects acquired by the constructor carry no state of
  their own.
\<close>

record GPGPUContext =
  gl :: "gl_call list"
  console :: "string list"
  vertexBuffer :: WebGLBuffer
  indexBuffer :: WebGLBuffer
  framebuffer :: WebGLFramebuffer
  outputTexture :: "WebGLTexture option"
  program :: "WebGLProgram option"
  disposed :: bool
  autoDebugValidate :: bool

text \<open>
  A method is a function from the context before the call to its outcome and the
  context after it. A thrown exception is \<open>Inl\<close>; the context it leaves behind is the
  one at the point of the throw.
\<close>

type_synonym 'a result = "(error + 'a) \<times> GPGPUContext"
type_synonym 'a action = "GPGPUContext \<Rightarrow> 'a result"

definition ret :: "'a \<Rightarrow> 'a action" where
  "ret x c = (Inr x, c)"

definition throw :: "error \<Rightarrow> 'a action" where
  "throw e c = (Inl e, c)"

definition andThen :: "'a action \<Rightarrow> ('a \<Rightarrow> 'b action) \<Rightarrow> 'b action" where
  "andThen m f c = (case m c of (Inl e, c') \<Rightarrow> (Inl e, c') | (Inr x, c') \<Rightarrow> f x c')"

fun seq :: "unit action list \<Rightarrow> unit action" where
  "seq [] c = (Inr (), c)"
| "seq (m # ms) c = (case m c of (Inl e, c') \<Rightarrow> (Inl e, c') | (Inr _, c') \<Rightarrow> seq ms c')"

definition glCall :: "env \<Rightarrow> gl_call \<Rightarrow> unit action" where
  "glCall e call c =
     (let c' = c\<lparr>gl := gl c @ [call]\<rparr>
      in if rejects e (gl c) call then (Inl (DriverError call), c') else (Inr (), c'))"

definition glCreate :: "env \<Rightarrow> gl_call \<Rightarrow> nat action" where
  "glCreate e call c =
     (let c' = c\<lparr>gl := gl c @ [call]\<rparr>
      in if rejects e (gl c) call then (Inl (DriverError call), c')
         else (Inr (handle e (gl c) call), c'))"

definition glRead :: "env \<Rightarrow> gl_call \<Rightarrow> (float32 list) action" where
  "glRead e call c =
     (let c' = c\<lparr>gl := gl c @ [call]\<rparr>
      in if rejects e (gl c) call then (Inl (DriverError call), c')
         else (Inr (pixels e (gl c) call), c'))"

definition glIssue :: "gl_call \<Rightarrow> unit action" where
  "glIssue call c = (Inr (), c\<lparr>gl := gl c @ [call]\<rparr>)"

definition warn :: "string \<Rightarrow> unit action" where
  "warn msg c = (Inr (), c\<lparr>console := console c @ [msg]\<rparr>)"

definition disposedMessage :: string where
  "disposedMessage = ''Attempted to use disposed GPGPUContext.''"

definition noProgramMessage :: string where
  "noProgramMessage = ''No GPU program is currently set.''"

definition throwIfDisposed :: "unit action" where
  "throwIfDisposed c = (if disposed c then throw (Error disposedMessage) c else ret () c)"

definition throwIfNoProgram :: "unit action" where
  "throwIfNoProgram c =
     (if program c = None then throw (Error noProgramMessage) c else ret () c)"

definition programLeakWarning :: string where
  "programLeakWarning =
     ''Disposing a GPGPUContext that still has a bound WebGLProgram.'' @
     '' This is probably a resource leak, delete the program with '' @
     ''GPGPUContext.deleteProgram before disposing.''"

definition outputTextureLeakWarning :: string where
  "outputTextureLeakWarning =
     ''Disposing a GPGPUContext that still has a bound output matrix '' @
     ''texture.  This is probably a resource leak, delete the output '' @
     ''matrix texture with GPGPUContext.deleteMatrixTexture before '' @
     ''disposing.''"

definition dispose :: "env \<Rightarrow> unit action" where
  "dispose e =
     seq [throwIfDisposed,
          (\<lambda>c. if program c \<noteq> None then warn programLeakWarning c else ret () c),
          (\<lambda>c. if outputTexture c \<noteq> None then warn outputTextureLeakWarning c else ret () c),
          glCall e Finish,
          glCall e (BindFramebuffer None),
          (\<lambda>c. glCall e (DeleteFramebuffer (framebuffer c)) c),
          glCall e (BindBuffer ARRAY_BUFFER None),
          (\<lambda>c. glCall e (DeleteBuffer (vertexBuffer c)) c),
          glCall e (BindBuffer ELEMENT_ARRAY_BUFFER None),
          (\<lambda>c. glCall e (DeleteBuffer (indexBuffer c)) c),
          glIssue LoseContext,
          (\<lambda>c. ret () (c\<lparr>disposed := True\<rparr>))]"

definition enableAutomaticDebugValidation :: "bool \<Rightarrow> unit action" where
  "enableAutomaticDebugValidation enabled =
     seq [(\<lambda>c. ret () (c\<lparr>autoDebugValidate := enabled\<rparr>)),
          glIssue (EnableDebugWebGLErrorChecking enabled)]"

definition createMatrixTexture :: "env \<Rightarrow> int \<Rightarrow> int \<Rightarrow> WebGLTexture action" where
  "createMatrixTexture e rows columns =
     andThen throwIfDisposed (\<lambda>_. glCreate e (CreateMatrixTexture rows columns))"

definition uploadPixelDataToTexture :: "env \<Rightarrow> WebGLTexture \<Rightarrow> PixelSource \<Rightarrow> unit action" where
  "uploadPixelDataToTexture e texture pixelData =
     seq [throwIfDisposed, glCall e (UploadPixelDataToTexture texture pixelData)]"

definition createPackedMatrixTexture :: "env \<Rightarrow> int \<Rightarrow> int \<Rightarrow> WebGLTexture action" where
  "createPackedMatrixTexture e rows columns =
     andThen throwIfDisposed (\<lambda>_. glCreate e (CreatePackedMatrixTexture rows columns))"

definition deleteMatrixTexture :: "env \<Rightarrow> WebGLTexture \<Rightarrow> unit action" where
  "deleteMatrixTexture e texture =
     seq [throwIfDisposed,
          (\<lambda>c. if outputTexture c = Some texture
                then seq [glCall e (UnbindColorTextureFromFramebuffer (framebuffer c)),
                          (\<lambda>c'. ret () (c'\<lparr>outputTexture := None\<rparr>))] c
                else ret () c),
          glCall e (DeleteTexture texture)]"

definition uploadMatrixToTexture ::
  "env \<Rightarrow> WebGLTexture \<Rightarrow> int \<Rightarrow> int \<Rightarrow> float32 list \<Rightarrow> unit action" where
  "uploadMatrixToTexture e texture rows columns matrix =
     seq [throwIfDisposed,
          (let numChannels = 1
           in glCall e (UploadMatrixToTexture texture rows columns matrix numChannels))]"

definition uploadMatrixToPackedTexture ::
  "env \<Rightarrow> WebGLTexture \<Rightarrow> int \<Rightarrow> int \<Rightarrow> float32 list \<Rightarrow> unit action" where
  "uploadMatrixToPackedTexture e texture rows columns matrix =
     seq [throwIfDisposed,
          glCall e (UploadMatrixToPackedTexture texture rows columns matrix)]"

definition downloadMatrixDriver ::
  "env \<Rightarrow> WebGLTexture \<Rightarrow> (float32 list) action \<Rightarrow> (float32 list) action" where
  "downloadMatrixDriver e texture downloadAndDecode =
     andThen throwIfDisposed (\<lambda>_.
     andThen (\<lambda>c. glCall e (BindColorTextureToFramebuffer texture (framebuffer c)) c) (\<lambda>_.
     andThen downloadAndDecode (\<lambda>res.
     andThen (\<lambda>c. case outputTexture c of
                Some out \<Rightarrow>
                  seq [glCall e (BindColorTextureToFramebuffer out (framebuffer c)),
                       (\<lambda>c'. if autoDebugValidate c' then glCall e ValidateFramebuffer c'
                             else ret () c')] c
              | None \<Rightarrow> glCall e (UnbindColorTextureFromFramebuffer (framebuffer c)) c) (\<lambda>_.
     ret res))))"

definition downloadMatrixFromTexture ::
  "env \<Rightarrow> WebGLTexture \<Rightarrow> int \<Rightarrow> int \<Rightarrow> (float32 list) action" where
  "downloadMatrixFromTexture e texture rows columns =
     downloadMatrixDriver e texture (glRead e (DownloadMatrixFromOutputTexture rows columns))"

definition downloadMatrixFromPackedTexture ::
  "env \<Rightarrow> WebGLTexture \<Rightarrow> int \<Rightarrow> int \<Rightarrow> (float32 list) action" where
  "downloadMatrixFromPackedTexture e texture rows columns =
     downloadMatrixDriver e texture
       (glRead e (DownloadMatrixFromPackedOutputTexture rows columns))"

definition createProgram :: "env \<Rightarrow> string \<Rightarrow> WebGLProgram action" where
  "createProgram e fragmentShaderSource =
     andThen throwIfDisposed (\<lambda>_.
     andThen (glCreate e (CreateFragmentShader fragmentShaderSource)) (\<lambda>fragmentShader.
     andThen (glCreate e CreateVertexShader) (\<lambda>vertexShader.
     andThen (glCreate e CreateProgram) (\<lambda>prog.
     andThen (seq [glCall e (AttachShader prog vertexShader),
                   glCall e (AttachShader prog fragmentShader),
                   glCall e (LinkProgram prog),
                   (\<lambda>c. if autoDebugValidate c then glCall e (ValidateProgram prog) c
                        else ret () c)]) (\<lambda>_.
     ret prog)))))"

definition deleteProgram :: "env \<Rightarrow> WebGLProgram option \<Rightarrow> unit action" where
  "deleteProgram e prog =
     seq [throwIfDisposed,
          (\<lambda>c. if prog = program c then ret () (c\<lparr>program := None\<rparr>) else ret () c),
          (case prog of Some p \<Rightarrow> glCall e (DeleteProgram p) | None \<Rightarrow> ret ())]"

definition setProgram :: "env \<Rightarrow> WebGLProgram option \<Rightarrow> unit action" where
  "setProgram e prog =
     seq [throwIfDisposed,
          (\<lambda>c. ret () (c\<lparr>program := prog\<rparr>)),
          (\<lambda>c. case program c of
                 Some p \<Rightarrow> if autoDebugValidate c then glCall e (ValidateProgram p) c
                           else ret () c
               | None \<Rightarrow> ret () c),
          glCall e (UseProgram prog)]"

definition getUniformLocation :: "env \<Rightarrow> string \<Rightarrow> nat action" where
  "getUniformLocation e uniformName =
     andThen (seq [throwIfDisposed, throwIfNoProgram]) (\<lambda>_ c.
       glCreate e (GetProgramUniformLocationOrThrow (program c) uniformName) c)"

definition setInputMatrixTexture ::
  "env \<Rightarrow> WebGLTexture \<Rightarrow> string option \<Rightarrow> int \<Rightarrow> unit action" where
  "setInputMatrixTexture e inputMatrixTexture uniformName textureUnit =
     seq [throwIfDisposed,
          throwIfNoProgram,
          (\<lambda>c. glCall e (BindTextureToProgramUniformSampler (program c) inputMatrixTexture
                            uniformName textureUnit) c)]"

definition setOutputMatrixTextureDriver ::
  "env \<Rightarrow> WebGLTexture \<Rightarrow> int \<Rightarrow> int \<Rightarrow> unit action" where
  "setOutputMatrixTextureDriver e outputMatrixTextureMaybePacked width height =
     seq [throwIfDisposed,
          (\<lambda>c. glCall e (BindColorTextureToFramebuffer outputMatrixTextureMaybePacked
                            (framebuffer c)) c),
          (\<lambda>c. if autoDebugValidate c then glCall e ValidateFramebuffer c else ret () c),
          (\<lambda>c. ret () (c\<lparr>outputTexture := Some outputMatrixTextureMaybePacked\<rparr>)),
          glCall e (Viewport 0 0 width height),
          glCall e (Scissor 0 0 width height)]"

definition setOutputMatrixTexture :: "env \<Rightarrow> WebGLTexture \<Rightarrow> int \<Rightarrow> int \<Rightarrow> unit action" where
  "setOutputMatrixTexture e outputMatrixTexture rows columns =
     setOutputMatrixTextureDriver e outputMatrixTexture columns rows"

definition setOutputPackedMatrixTexture ::
  "env \<Rightarrow> WebGLTexture \<Rightarrow> int \<Rightarrow> int \<Rightarrow> unit action" where
  "setOutputPackedMatrixTexture e outputPackedMatrixTexture rows columns =
     seq [throwIfDisposed,
          (case getPackedMatrixTextureShapeWidthHeight e rows columns of
             (width, height) \<Rightarrow>
               setOutputMatrixTextureDriver e outputPackedMatrixTexture width height)]"

definition setOutputMatrixWriteRegionDriver ::
  "env \<Rightarrow> int \<Rightarrow> int \<Rightarrow> int \<Rightarrow> int \<Rightarrow> unit action" where
  "setOutputMatrixWriteRegionDriver e x y width height =
     seq [throwIfDisposed, glCall e (Scissor x y width height)]"

definition setOutputMatrixWriteRegion ::
  "env \<Rightarrow> int \<Rightarrow> int \<Rightarrow> int \<Rightarrow> int \<Rightarrow> unit action" where
  "setOutputMatrixWriteRegion e startRow numRows startColumn numColumns =
     setOutputMatrixWriteRegionDriver e startColumn startRow numColumns numRows"

definition setOutputPackedMatrixWriteRegion ::
  "int \<Rightarrow> int \<Rightarrow> int \<Rightarrow> int \<Rightarrow> unit action" where
  "setOutputPackedMatrixWriteRegion startRow numRows startColumn numColumns =
     throw (Error ''setOutputPackedMatrixWriteRegion not implemented.'')"

definition debugValidate :: "env \<Rightarrow> unit action" where
  "debugValidate e =
     seq [(\<lambda>c. case program c of Some p \<Rightarrow> glCall e (ValidateProgram p) c
                               | None \<Rightarrow> ret () c),
          glCall e ValidateFramebuffer]"

definition executeProgram :: "env \<Rightarrow> unit action" where
  "executeProgram e =
     seq [throwIfDisposed,
          throwIfNoProgram,
          (\<lambda>c. glCall e (BindVertexProgramAttributeStreams (program c) (vertexBuffer c)) c),
          (\<lambda>c. if autoDebugValidate c then debugValidate e c else ret () c),
          glCall e (DrawElementsTriangles 6 0)]"

definition blockUntilAllProgramsCompleted :: "env \<Rightarrow> unit action" where
  "blockUntilAllProgramsCompleted e = seq [throwIfDisposed, glCall e Finish]"

section \<open>Rendering numbers and arrays as strings\<close>

text \<open>
  \<^verbatim>\<open>Number.prototype.toString\<close> on an integer (decimal digits, a leading minus sign
  for a negative one; the exponent notation of magnitudes from \<open>10\<^sup>2\<^sup>1\<close> on is outside
  the range of array sizes), \<^verbatim>\<open>Array.prototype.join\<close> and \<^verbatim>\<open>Array.prototype.toString\<close>,
  which the sources reach through string concatenation and template literals.
\<close>

definition digitChar :: "nat \<Rightarrow> char" where
  "digitChar d = ''0123456789'' ! d"

fun showNat :: "nat \<Rightarrow> string" where
  "showNat n = (if n < 10 then [digitChar n] else showNat (n div 10) @ [digitChar (n mod 10)])"

definition showInt :: "int \<Rightarrow> string" where
  "showInt i = (if i < 0 then CHR ''-'' # showNat (nat (- i)) else showNat (nat i))"

fun join :: "string \<Rightarrow> string list \<Rightarrow> string" where
  "join sep [] = []"
| "join sep [x] = x"
| "join sep (x # y # ys) = x @ sep @ join sep (y # ys)"

definition arrayToString :: "int list \<Rightarrow> string" where
  "arrayToString xs = join '','' (map showInt xs)"

definition pairToArray :: "int \<times> int \<Rightarrow> int list" where
  "pairToArray p = [fst p, snd p]"

definition boolToString :: "bool \<Rightarrow> string" where
  "boolToString b = (if b then ''true'' else ''false'')"

text \<open>
  Reading \<^verbatim>\<open>xs[i]\<close>: JavaScript yields \<^verbatim>\<open>undefined\<close> beyond the end of the array.
\<close>

definition jsIndex :: "'a list \<Rightarrow> nat \<Rightarrow> 'a option" where
  "jsIndex xs i = (if i < length xs then Some (xs ! i) else None)"

section \<open>Arrays, program descriptors and binaries (gpgpu\_math.ts)\<close>

text \<open>
  Modelled from the spec: class \<^verbatim>\<open>NDArray\<close> (\<^verbatim>\<open>ndarray.ts\<close>) is not among the sources.
  The spec's data model gives an array realized on the GPU an immutable pair of
  logical shape and (rows, columns) texture shape and one texture handle, so
  \<^verbatim>\<open>shape\<close>, \<^verbatim>\<open>getTextureShapeRC()\<close> and \<^verbatim>\<open>getTexture()\<close> read fields.
\<close>

record NDArray =
  shape :: "int list"
  textureShapeRC :: "int \<times> int"
  texture :: WebGLTexture

definition getTextureShapeRC :: "NDArray \<Rightarrow> int \<times> int" where
  "getTextureShapeRC x = textureShapeRC x"

definition getTexture :: "NDArray \<Rightarrow> WebGLTexture" where
  "getTexture x = texture x"

text \<open>
  Modelled from the spec: \<^verbatim>\<open>util.arraysEqual\<close> (\<^verbatim>\<open>util.ts\<close>) is not among the sources;
  the spec has the validation compare the current shapes with the captured ones, which
  for two arrays of integers is equality of the two sequences.
\<close>

definition arraysEqual :: "int list \<Rightarrow> int list \<Rightarrow> bool" where
  "arraysEqual n1 n2 = (n1 = n2)"

text \<open>The interface \<^verbatim>\<open>ShapeInfo\<close> of the shader compiler, as gpgpu\_math.ts builds it.\<close>

record ShapeInfo =
  logicalShape :: "int list"
  texShape :: "int \<times> int"

text \<open>
  Interface \<^verbatim>\<open>GPGPUProgram\<close>. \<open>constructorName\<close> is \<^verbatim>\<open>program.constructor.name\<close>;
  each element of \<open>params\<close> is kept as the string its \<^verbatim>\<open>toString()\<close> yields, the only
  use the sources make of it; \<open>supportsBroadcasting\<close> is an optional field.
\<close>

record GPGPUProgram =
  constructorName :: string
  variableNames :: "string list"
  outputShape :: "int list"
  params :: "string list"
  userCode :: string
  supportsBroadcasting :: "bool option"

text \<open>
  Interface \<^verbatim>\<open>GPGPUBinary\<close>. Its field \<^verbatim>\<open>program\<close> is named \<open>gpgpuProgram\<close> here
  (the context has a field \<open>program\<close> too). Its field \<^verbatim>\<open>gpgpu\<close> is a reference to the
  context; the context is passed explicitly to the functions that follow it.
\<close>

record GPGPUBinary =
  webGLProgram :: WebGLProgram
  gpgpuProgram :: GPGPUProgram
  source :: string
  inShapeInfos :: "ShapeInfo list"
  outShapeInfo :: ShapeInfo

definition shapeInfoOf :: "NDArray \<Rightarrow> ShapeInfo" where
  "shapeInfoOf x = \<lparr>logicalShape = shape x, texShape = getTextureShapeRC x\<rparr>"

text \<open>
  \<open>makeShader\<close> stands for \<^verbatim>\<open>shader_compiler.makeShader\<close>, which is not among the
  sources: it returns the shader source or throws.
\<close>

type_synonym shader_compiler =
  "(string option \<times> ShapeInfo) list \<Rightarrow> ShapeInfo \<Rightarrow> string \<Rightarrow> bool \<Rightarrow> error + string"

definition lift :: "error + 'a \<Rightarrow> 'a action" where
  "lift r c = (r, c)"

definition compileProgram ::
  "env \<Rightarrow> shader_compiler \<Rightarrow> GPGPUProgram \<Rightarrow> NDArray list \<Rightarrow> NDArray \<Rightarrow> GPGPUBinary action" where
  "compileProgram e makeShader prog inputs output =
     (let userCode' = userCode prog;
          inputInfos = map (\<lambda>(i, input).
                         (jsIndex (variableNames prog) i,
                          \<lparr>logicalShape = shape input, texShape = getTextureShapeRC input\<rparr>))
                         (enumerate 0 inputs);
          inShapeInfos' = map snd inputInfos;
          outShapeInfo' = \<lparr>logicalShape = shape output, texShape = getTextureShapeRC output\<rparr>
      in andThen (lift (makeShader inputInfos outShapeInfo' userCode'
                          (supportsBroadcasting prog = Some True))) (\<lambda>source'.
         andThen (createProgram e source') (\<lambda>webGLProgram'.
         ret \<lparr>webGLProgram = webGLProgram', gpgpuProgram = prog, source = source',
              inShapeInfos = inShapeInfos', outShapeInfo = outShapeInfo'\<rparr>)))"

definition inputCountMessage :: "nat \<Rightarrow> nat \<Rightarrow> string" where
  "inputCountMessage n m =
     ''Binary was compiled with '' @ showNat n @ '' inputs, but '' @
     ''was executed with '' @ showNat m @ '' inputs''"

definition shapeMismatchMessage :: "int list \<Rightarrow> int list \<Rightarrow> string" where
  "shapeMismatchMessage shapeA shapeB =
     ''Binary was compiled with different shapes than '' @
     ''the current args. Shapes '' @ arrayToString shapeA @ '' and '' @
     arrayToString shapeB @ '' must match''"

definition texShapeMismatchMessage :: "int \<times> int \<Rightarrow> int \<times> int \<Rightarrow> string" where
  "texShapeMismatchMessage texShapeA texShapeB =
     ''Binary was compiled with different texture shapes than the'' @
     '' current args. Shape '' @ arrayToString (pairToArray texShapeA) @ '' and '' @
     arrayToString (pairToArray texShapeB) @ '' must match''"

text \<open>The body of the \<^verbatim>\<open>forEach\<close> callback of \<^verbatim>\<open>validateBinaryAndProgram\<close>.\<close>

definition checkShapes :: "ShapeInfo \<Rightarrow> NDArray \<Rightarrow> error + unit" where
  "checkShapes s input =
     (let shapeA = logicalShape s;
          texShapeA = texShape s;
          shapeB = shape input;
          texShapeB = getTextureShapeRC input
      in if \<not> arraysEqual shapeA shapeB then Inl (Error (shapeMismatchMessage shapeA shapeB))
         else if \<not> arraysEqual (pairToArray texShapeA) (pairToArray texShapeB)
              then Inl (Error (texShapeMismatchMessage texShapeA texShapeB))
         else Inr ())"

fun forEachShapeInfo :: "NDArray list \<Rightarrow> (nat \<times> ShapeInfo) list \<Rightarrow> error + unit" where
  "forEachShapeInfo inputs [] = Inr ()"
| "forEachShapeInfo inputs ((i, s) # rest) =
     (case checkShapes s (inputs ! i) of
        Inl err \<Rightarrow> Inl err
      | Inr _ \<Rightarrow> forEachShapeInfo inputs rest)"

definition validateBinaryAndProgram :: "ShapeInfo list \<Rightarrow> NDArray list \<Rightarrow> error + unit" where
  "validateBinaryAndProgram shapeInfos inputs =
     (if length shapeInfos \<noteq> length inputs
      then Inl (Error (inputCountMessage (length shapeInfos) (length inputs)))
      else forEachShapeInfo inputs (enumerate 0 shapeInfos))"

definition runProgram ::
  "env \<Rightarrow> GPGPUBinary \<Rightarrow> NDArray list \<Rightarrow> NDArray \<Rightarrow> (unit action) option \<Rightarrow> unit action" where
  "runProgram e binary inputs output customSetup =
     seq [lift (validateBinaryAndProgram (inShapeInfos binary) inputs),
          lift (validateBinaryAndProgram [outShapeInfo binary] [output]),
          (let outTex = getTexture output;
               outTexShape = getTextureShapeRC output
           in setOutputMatrixTexture e outTex (fst outTexShape) (snd outTexShape)),
          setProgram e (Some (webGLProgram binary)),
          seq (map (\<lambda>(i, input).
                      let tex = getTexture input
                      in setInputMatrixTexture e tex
                           (jsIndex (variableNames (gpgpuProgram binary)) i) (int i))
                   (enumerate 0 inputs)),
          (case customSetup of Some hook \<Rightarrow> hook | None \<Rightarrow> ret ()),
          executeProgram e]"

definition makeShaderKey :: "GPGPUProgram \<Rightarrow> NDArray list \<Rightarrow> NDArray \<Rightarrow> string" where
  "makeShaderKey prog inputs output =
     (let params' = params prog;
          keyStart = map (\<lambda>x. arrayToString (shape x) @ ''_'' @
                               arrayToString (pairToArray (getTextureShapeRC x)))
                         (inputs @ [output]);
          keyEnd = map (\<lambda>p. p) params';
          key = [constructorName prog];
          key = key @ [boolToString (supportsBroadcasting prog = Some True)];
          key = key @ keyStart @ keyEnd
      in join ''_'' key)"

section \<open>Descriptions used in the statements\<close>

text \<open>
  The call that \<^verbatim>\<open>runProgram\<close> issues for the input at position \<open>i\<close> once program \<open>p\<close>
  is active, and the context \<^verbatim>\<open>runProgram\<close> has built when it reaches the setup hook:
  output bound, program bound, every input bound in the order of the input list.
\<close>

definition inputBinding ::
  "WebGLProgram \<Rightarrow> string list \<Rightarrow> nat \<times> NDArray \<Rightarrow> gl_call" where
  "inputBinding p names = (\<lambda>(i, input).
     BindTextureToProgramUniformSampler (Some p) (getTexture input) (jsIndex names i) (int i))"

definition boundForRun :: "GPGPUBinary \<Rightarrow> NDArray list \<Rightarrow> NDArray \<Rightarrow> GPGPUContext \<Rightarrow> GPGPUContext" where
  "boundForRun binary inputs output c =
     c\<lparr>outputTexture := Some (getTexture output),
       program := Some (webGLProgram binary),
       gl := gl c @
             [BindColorTextureToFramebuffer (getTexture output) (framebuffer c)] @
             (if autoDebugValidate c then [ValidateFramebuffer] else []) @
             [Viewport 0 0 (snd (getTextureShapeRC output)) (fst (getTextureShapeRC output)),
              Scissor 0 0 (snd (getTextureShapeRC output)) (fst (getTextureShapeRC output))] @
             (if autoDebugValidate c then [ValidateProgram (webGLProgram binary)] else []) @
             [UseProgram (Some (webGLProgram binary))] @
             map (inputBinding (webGLProgram binary) (variableNames (gpgpuProgram binary)))
                 (enumerate 0 inputs)\<rparr>"


text \<open>
  The calls by which \<^verbatim>\<open>downloadMatrixDriver\<close> puts the framebuffer back after the
  read-back.
\<close>

definition restoreCalls :: "GPGPUContext \<Rightarrow> gl_call list" where
  "restoreCalls c =
     (case outputTexture c of
        Some out \<Rightarrow> [BindColorTextureToFramebuffer out (framebuffer c)] @
                    (if autoDebugValidate c then [ValidateFramebuffer] else [])
      | None \<Rightarrow> [UnbindColorTextureFromFramebuffer (framebuffer c)])"


text \<open>
  Modelled from the spec: \<^verbatim>\<open>webgl_util.bindColorTextureToFramebuffer\<close> and
  \<^verbatim>\<open>webgl_util.unbindColorTextureFromFramebuffer\<close> are not among the sources. The spec
  has the first bind a texture as the render target of the framebuffer and the second
  unbind it, so the colour attachment after a sequence of calls is the texture of the
  last bind, and none after an unbind.
\<close>

definition attach :: "WebGLTexture option \<Rightarrow> gl_call \<Rightarrow> WebGLTexture option" where
  "attach a call =
     (case call of
        BindColorTextureToFramebuffer t fb \<Rightarrow> Some t
      | UnbindColorTextureFromFramebuffer fb \<Rightarrow> None
      | _ \<Rightarrow> a)"

definition colorAttachment :: "gl_call list \<Rightarrow> WebGLTexture option" where
  "colorAttachment calls = foldl attach None calls"


text \<open>The operands \<^verbatim>\<open>compileProgram\<close> hands to the shader compiler.\<close>

definition inputInfosOf :: "GPGPUProgram \<Rightarrow> NDArray list \<Rightarrow> (string option \<times> ShapeInfo) list" where
  "inputInfosOf prog inputs =
     map (\<lambda>(i, input). (jsIndex (variableNames prog) i, shapeInfoOf input)) (enumerate 0 inputs)"


text \<open>
  What \<^verbatim>\<open>join\<close> appends after a first element, and the part of a shader key that one
  array contributes.
\<close>

definition joinTail :: "char \<Rightarrow> string list \<Rightarrow> string" where
  "joinTail c xs = (if xs = [] then [] else c # join [c] xs)"

definition infoKey :: "ShapeInfo \<Rightarrow> string" where
  "infoKey s = arrayToString (logicalShape s) @ ''_'' @ arrayToString (pairToArray (texShape s))"


section \<open>Example values\<close>

text \<open>
  A driver that accepts every call and hands out the length of the history as the next
  handle, and one that reports an error for every delete of a texture or a program; a
  freshly constructed context, and contexts with a program, an output texture or both
  bound; a broadcasting binary operation over a \<open>2\<times>3\<close> array and a \<open>1\<times>1\<close> array,
  and a binary compiled for them. \<open>arrayT\<close> has the logical shape of \<open>arrayA\<close> on a
  \<open>3\<times>2\<close> texture.
\<close>

definition exampleEnv :: env where
  "exampleEnv =
     \<lparr>rejects = (\<lambda>h call. False),
      handle = (\<lambda>h call. length h),
      pixels = (\<lambda>h call. []),
      getPackedMatrixTextureShapeWidthHeight =
        (\<lambda>rows columns. ((columns + 1) div 2, (rows + 1) div 2))\<rparr>"

definition deleteRejectingEnv :: env where
  "deleteRejectingEnv =
     exampleEnv\<lparr>rejects := (\<lambda>h call. case call of DeleteTexture t \<Rightarrow> True
                                                  | DeleteProgram p \<Rightarrow> True
                                                  | _ \<Rightarrow> False)\<rparr>"

definition exampleContext :: GPGPUContext where
  "exampleContext =
     \<lparr>gl = [], console = [], vertexBuffer = 1, indexBuffer = 2, framebuffer = 3,
      outputTexture = None, program = None, disposed = False, autoDebugValidate = False\<rparr>"

definition disposedContext :: GPGPUContext where
  "disposedContext = exampleContext\<lparr>disposed := True\<rparr>"

definition busyContext :: GPGPUContext where
  "busyContext = exampleContext\<lparr>outputTexture := Some 12, program := Some 7\<rparr>"

definition programContext :: GPGPUContext where
  "programContext = exampleContext\<lparr>program := Some 7\<rparr>"

definition outputContext :: GPGPUContext where
  "outputContext = exampleContext\<lparr>outputTexture := Some 12\<rparr>"

definition arrayA :: NDArray where
  "arrayA = \<lparr>shape = [2, 3], textureShapeRC = (2, 3), texture = 10\<rparr>"

definition arrayB :: NDArray where
  "arrayB = \<lparr>shape = [1, 1], textureShapeRC = (1, 1), texture = 11\<rparr>"

definition arrayC :: NDArray where
  "arrayC = \<lparr>shape = [2, 4], textureShapeRC = (2, 4), texture = 13\<rparr>"

definition arrayT :: NDArray where
  "arrayT = \<lparr>shape = [2, 3], textureShapeRC = (3, 2), texture = 14\<rparr>"

definition arrayOut :: NDArray where
  "arrayOut = \<lparr>shape = [2, 3], textureShapeRC = (2, 3), texture = 12\<rparr>"

definition exampleProgram :: GPGPUProgram where
  "exampleProgram =
     \<lparr>constructorName = ''BinaryOpProgram'', variableNames = [''A'', ''B''],
      outputShape = [2, 3], params = [], userCode = ''setOutput(a + b);'',
      supportsBroadcasting = Some True\<rparr>"

definition exampleBinary :: GPGPUBinary where
  "exampleBinary =
     \<lparr>webGLProgram = 7, gpgpuProgram = exampleProgram, source = ''void main() {}'',
      inShapeInfos = [\<lparr>logicalShape = [2, 3], texShape = (2, 3)\<rparr>,
                      \<lparr>logicalShape = [1, 1], texShape = (1, 1)\<rparr>],
      outShapeInfo = \<lparr>logicalShape = [2, 3], texShape = (2, 3)\<rparr>\<rparr>"

definition exampleShaderCompiler :: shader_compiler where
  "exampleShaderCompiler infos outInfo code broadcast = Inr ''void main() {}''"

section \<open>Auxiliary facts\<close>

declare showNat.simps [simp del]

subsection \<open>Driver calls and guards\<close>

lemma glCall_accepts: "accepts e \<Longrightarrow> glCall e call c = (Inr (), c\<lparr>gl := gl c @ [call]\<rparr>)"
  by (simp add: glCall_def accepts_def)

lemma glCreate_accepts:
  "accepts e \<Longrightarrow> glCreate e call c = (Inr (handle e (gl c) call), c\<lparr>gl := gl c @ [call]\<rparr>)"
  by (simp add: glCreate_def accepts_def)

lemma glRead_accepts:
  "accepts e \<Longrightarrow> glRead e call c = (Inr (pixels e (gl c) call), c\<lparr>gl := gl c @ [call]\<rparr>)"
  by (simp add: glRead_def accepts_def)

lemma throwIfDisposed_live: "\<not> disposed c \<Longrightarrow> throwIfDisposed c = (Inr (), c)"
  by (simp add: throwIfDisposed_def ret_def)

lemma throwIfDisposed_dead:
  "disposed c \<Longrightarrow> throwIfDisposed c = (Inl (Error disposedMessage), c)"
  by (simp add: throwIfDisposed_def throw_def)

lemma throwIfNoProgram_bound: "program c = Some p \<Longrightarrow> throwIfNoProgram c = (Inr (), c)"
  by (simp add: throwIfNoProgram_def ret_def)

lemma throwIfNoProgram_unbound:
  "program c = None \<Longrightarrow> throwIfNoProgram c = (Inl (Error noProgramMessage), c)"
  by (simp add: throwIfNoProgram_def throw_def)

lemma seq_disposed: "disposed c \<Longrightarrow> seq (throwIfDisposed # ms) c = (Inl (Error disposedMessage), c)"
  by (simp add: throwIfDisposed_dead)

lemma andThen_disposed:
  "disposed c \<Longrightarrow> andThen throwIfDisposed f c = (Inl (Error disposedMessage), c)"
  by (simp add: andThen_def throwIfDisposed_dead)

lemma seq_noProgram:
  "\<not> disposed c \<Longrightarrow> program c = None \<Longrightarrow>
     seq (throwIfDisposed # throwIfNoProgram # ms) c = (Inl (Error noProgramMessage), c)"
  by (simp add: throwIfDisposed_live throwIfNoProgram_unbound)


subsection \<open>Shape validation\<close>

lemma checkShapes_ok: "checkShapes s x = Inr () \<longleftrightarrow> shapeInfoOf x = s"
  by (cases s) (auto simp: checkShapes_def shapeInfoOf_def arraysEqual_def pairToArray_def Let_def prod_eq_iff)

lemma checkShapes_fail:
  "checkShapes s x = Inl err \<Longrightarrow>
     err = Error (if logicalShape s \<noteq> shape x then shapeMismatchMessage (logicalShape s) (shape x)
                  else texShapeMismatchMessage (texShape s) (getTextureShapeRC x))"
  by (auto simp: checkShapes_def arraysEqual_def Let_def split: if_splits)

lemma forEachShapeInfo_ok:
  "forEachShapeInfo inputs (enumerate n ss) = Inr () \<longleftrightarrow>
     (\<forall>k < length ss. checkShapes (ss ! k) (inputs ! (n + k)) = Inr ())"
proof (induction ss arbitrary: n)
  case Nil
  then show ?case by simp
next
  case (Cons s ss)
  show ?case
    by (cases "checkShapes s (inputs ! n)") (auto simp: Cons.IH All_less_Suc2 dest: spec [of _ 0])
qed

lemma forEachShapeInfo_fail:
  "forEachShapeInfo inputs (enumerate n ss) = Inl err \<Longrightarrow>
     \<exists>k < length ss. checkShapes (ss ! k) (inputs ! (n + k)) = Inl err"
proof (induction ss arbitrary: n)
  case Nil
  then show ?case by simp
next
  case (Cons s ss)
  show ?case
  proof (cases "checkShapes s (inputs ! n)")
    case (Inl a)
    with Cons.prems have "checkShapes ((s # ss) ! 0) (inputs ! (n + 0)) = Inl err" by simp
    then show ?thesis by blast
  next
    case (Inr b)
    with Cons.prems have "forEachShapeInfo inputs (enumerate (Suc n) ss) = Inl err" by simp
    from Cons.IH [OF this] obtain k where "k < length ss"
      "checkShapes (ss ! k) (inputs ! (Suc n + k)) = Inl err" by blast
    then have "Suc k < length (s # ss) \<and> checkShapes ((s # ss) ! Suc k) (inputs ! (n + Suc k)) = Inl err"
      by simp
    then show ?thesis by blast
  qed
qed

lemma validate_ok:
  "validateBinaryAndProgram ss xs = Inr () \<longleftrightarrow> map shapeInfoOf xs = ss"
  by (auto simp: validateBinaryAndProgram_def forEachShapeInfo_ok checkShapes_ok list_eq_iff_nth_eq)

lemma validate_fail:
  assumes "validateBinaryAndProgram ss xs = Inl err" "length ss = length xs"
  shows "\<exists>k < length xs. shapeInfoOf (xs ! k) \<noteq> ss ! k \<and> checkShapes (ss ! k) (xs ! k) = Inl err"
proof -
  from assms have "forEachShapeInfo xs (enumerate 0 ss) = Inl err"
    by (simp add: validateBinaryAndProgram_def)
  from forEachShapeInfo_fail [OF this] obtain k where k: "k < length ss"
    "checkShapes (ss ! k) (xs ! k) = Inl err" by auto
  then have "shapeInfoOf (xs ! k) \<noteq> ss ! k" using checkShapes_ok [of "ss ! k" "xs ! k"] by auto
  with k assms(2) show ?thesis by auto
qed


subsection \<open>Single operations on a live context with an accepting driver\<close>

lemma setOutputMatrixTextureDriver_run:
  assumes "\<not> disposed c" "accepts e"
  shows "setOutputMatrixTextureDriver e t width height c =
           (Inr (), c\<lparr>outputTexture := Some t,
                      gl := gl c @ [BindColorTextureToFramebuffer t (framebuffer c)] @
                            (if autoDebugValidate c then [ValidateFramebuffer] else []) @
                            [Viewport 0 0 width height, Scissor 0 0 width height]\<rparr>)"
  using assms
  by (simp add: setOutputMatrixTextureDriver_def throwIfDisposed_live glCall_accepts ret_def)

lemma setProgram_run:
  assumes "\<not> disposed c" "accepts e"
  shows "setProgram e (Some p) c =
           (Inr (), c\<lparr>program := Some p,
                      gl := gl c @ (if autoDebugValidate c then [ValidateProgram p] else []) @
                            [UseProgram (Some p)]\<rparr>)"
  using assms
  by (simp add: setProgram_def throwIfDisposed_live glCall_accepts ret_def)

lemma setInputMatrixTexture_run:
  assumes "\<not> disposed c" "program c = Some p" "accepts e"
  shows "setInputMatrixTexture e t name unit c =
           (Inr (), c\<lparr>gl := gl c @ [BindTextureToProgramUniformSampler (Some p) t name unit]\<rparr>)"
  using assms
  by (simp add: setInputMatrixTexture_def throwIfDisposed_live throwIfNoProgram_bound
      glCall_accepts)

lemma executeProgram_run:
  assumes "\<not> disposed c" "program c = Some p" "accepts e"
  shows "executeProgram e c =
           (Inr (), c\<lparr>gl := gl c @ [BindVertexProgramAttributeStreams (Some p) (vertexBuffer c)] @
                            (if autoDebugValidate c then [ValidateProgram p, ValidateFramebuffer]
                             else []) @
                            [DrawElementsTriangles 6 0]\<rparr>)"
  using assms
  by (simp add: executeProgram_def debugValidate_def throwIfDisposed_live
      throwIfNoProgram_bound glCall_accepts ret_def)

lemma bindInputs_run:
  assumes "\<not> disposed c" "program c = Some p" "accepts e"
  shows "seq (map (\<lambda>(i, input).
                     setInputMatrixTexture e (getTexture input) (jsIndex names i) (int i))
                  (enumerate n inputs)) c =
           (Inr (), c\<lparr>gl := gl c @ map (inputBinding p names) (enumerate n inputs)\<rparr>)"
  using assms
proof (induction inputs arbitrary: n c)
  case Nil
  then show ?case by simp
next
  case (Cons x xs)
  then show ?case
    by (simp add: setInputMatrixTexture_run inputBinding_def)
qed

lemma createProgram_run:
  assumes live: "\<not> disposed c" and acc: "accepts e"
  shows "createProgram e src c =
           (let fragmentShader = handle e (gl c) (CreateFragmentShader src);
                vertexShader = handle e (gl c @ [CreateFragmentShader src]) CreateVertexShader;
                p = handle e (gl c @ [CreateFragmentShader src, CreateVertexShader]) CreateProgram
            in (Inr p,
                c\<lparr>gl := gl c @ [CreateFragmentShader src, CreateVertexShader, CreateProgram,
                                  AttachShader p vertexShader, AttachShader p fragmentShader,
                                  LinkProgram p] @
                             (if autoDebugValidate c then [ValidateProgram p] else [])\<rparr>))"
  using live acc
  by (simp add: createProgram_def andThen_def throwIfDisposed_live glCreate_accepts
      glCall_accepts ret_def Let_def)

lemma map_snd_inputInfos:
  "map snd (map (\<lambda>(i, input). (f i, g input)) (enumerate n inputs)) = map g inputs"
  by (induction inputs arbitrary: n) simp_all

lemma downloadMatrixDriver_run:
  assumes live: "\<not> disposed c" and acc: "accepts e"
  shows "downloadMatrixDriver e t (glRead e call) c =
           (Inr (pixels e (gl c @ [BindColorTextureToFramebuffer t (framebuffer c)]) call),
            c\<lparr>gl := gl c @ [BindColorTextureToFramebuffer t (framebuffer c), call] @
                         (case outputTexture c of
                            Some out \<Rightarrow> [BindColorTextureToFramebuffer out (framebuffer c)] @
                                        (if autoDebugValidate c then [ValidateFramebuffer] else [])
                          | None \<Rightarrow> [UnbindColorTextureFromFramebuffer (framebuffer c)])\<rparr>)"
  using live acc
  by (cases "outputTexture c")
     (simp_all add: downloadMatrixDriver_def andThen_def throwIfDisposed_live glCall_accepts
       glRead_accepts ret_def)

lemma downloadMatrixDriver_result:
  assumes live: "\<not> disposed c" and acc: "accepts e"
  shows "downloadMatrixDriver e t (glRead e call) c =
           (Inr (pixels e (gl c @ [BindColorTextureToFramebuffer t (framebuffer c)]) call),
            c\<lparr>gl := gl c @ [BindColorTextureToFramebuffer t (framebuffer c), call] @
                         restoreCalls c\<rparr>)"
  using downloadMatrixDriver_run [OF live acc] by (simp add: restoreCalls_def)

lemma downloadMatrixDriver_slots:
  assumes dl: "\<And>c0. program (snd (dl c0)) = program c0 \<and> outputTexture (snd (dl c0)) = outputTexture c0"
  shows "program (snd (downloadMatrixDriver e t dl c)) = program c \<and>
         outputTexture (snd (downloadMatrixDriver e t dl c)) = outputTexture c"
proof -
  let ?c1 = "c\<lparr>gl := gl c @ [BindColorTextureToFramebuffer t (framebuffer c)]\<rparr>"
  have "program (snd (dl ?c1)) = program c \<and> outputTexture (snd (dl ?c1)) = outputTexture c"
    using dl [of ?c1] by simp
  then show ?thesis
    by (cases "dl ?c1")
       (auto simp: downloadMatrixDriver_def andThen_def throwIfDisposed_def throw_def ret_def
          glCall_def Let_def split: sum.splits option.splits prod.splits if_splits)
qed

lemma glRead_slots:
  "program (snd (glRead e call c0)) = program c0 \<and>
   outputTexture (snd (glRead e call c0)) = outputTexture c0"
  by (simp add: glRead_def Let_def)

lemma colorAttachment_restore:
  "colorAttachment (xs @ [BindColorTextureToFramebuffer t fb, call] @ restoreCalls c) =
     outputTexture c"
  by (cases "outputTexture c") (simp_all add: colorAttachment_def attach_def restoreCalls_def)


subsection \<open>Decimal rendering and joined strings\<close>

lemma digitChar_inj: "d < 10 \<Longrightarrow> d' < 10 \<Longrightarrow> digitChar d = digitChar d' \<Longrightarrow> d = d'"
proof -
  assume a: "d < 10" "d' < 10" "digitChar d = digitChar d'"
  have dist: "distinct ''0123456789''" by simp
  have "d < length ''0123456789''" "d' < length ''0123456789''" using a by simp_all
  with dist a(3) show "d = d'" unfolding digitChar_def by (simp only: nth_eq_iff_index_eq)
qed

lemma digitChar_in: "d < 10 \<Longrightarrow> digitChar d \<in> set ''0123456789''"
  unfolding digitChar_def by (rule nth_mem) simp

lemma showNat_digits: "set (showNat n) \<subseteq> set ''0123456789''"
proof (induction n rule: showNat.induct)
  case (1 n)
  show ?case
  proof (cases "n < 10")
    case True
    then show ?thesis using digitChar_in [of n] by (subst showNat.simps) simp
  next
    case False
    have "digitChar (n mod 10) \<in> set ''0123456789''" by (rule digitChar_in) simp
    with False "1.IH" show ?thesis by (subst showNat.simps) simp
  qed
qed

lemma showNat_nonempty: "showNat n \<noteq> []"
  by (subst showNat.simps) simp

lemma showNat_inj: "showNat n = showNat m \<Longrightarrow> n = m"
proof (induction n arbitrary: m rule: showNat.induct)
  case (1 n)
  show ?case
  proof (cases "n < 10")
    case n: True
    show ?thesis
    proof (cases "m < 10")
      case True
      with n "1.prems" show ?thesis
        by (simp add: showNat.simps [of n] showNat.simps [of m] digitChar_inj)
    next
      case False
      with n "1.prems" showNat_nonempty [of "m div 10"] show ?thesis
        by (simp add: showNat.simps [of n] showNat.simps [of m])
    qed
  next
    case n: False
    show ?thesis
    proof (cases "m < 10")
      case True
      with n "1.prems" showNat_nonempty [of "n div 10"] show ?thesis
        by (simp add: showNat.simps [of n] showNat.simps [of m])
    next
      case False
      with n "1.prems" have eq: "showNat (n div 10) = showNat (m div 10)"
        and d: "digitChar (n mod 10) = digitChar (m mod 10)"
        by (simp_all add: showNat.simps [of n] showNat.simps [of m])
      from "1.IH" [OF n eq] have "n div 10 = m div 10" .
      moreover from d have "n mod 10 = m mod 10" by (intro digitChar_inj) simp_all
      ultimately show ?thesis by (metis div_mult_mod_eq)
    qed
  qed
qed

lemma showNat_avoids: "ch \<notin> set ''0123456789'' \<Longrightarrow> ch \<notin> set (showNat n)"
  using showNat_digits [of n] by blast

lemma showInt_avoids:
  assumes "ch \<noteq> CHR ''-''" "ch \<notin> set ''0123456789''"
  shows "ch \<notin> set (showInt i)"
  using assms showNat_avoids [OF assms(2)] by (simp add: showInt_def)

lemma showInt_no_comma: "CHR '','' \<notin> set (showInt i)"
  by (rule showInt_avoids) simp_all

lemma showInt_no_underscore: "CHR ''_'' \<notin> set (showInt i)"
  by (rule showInt_avoids) simp_all

lemma showInt_nonempty: "showInt i \<noteq> []"
  by (simp add: showInt_def showNat_nonempty)

lemma showNat_no_minus: "showNat n \<noteq> CHR ''-'' # s"
proof
  assume "showNat n = CHR ''-'' # s"
  then have "CHR ''-'' \<in> set (showNat n)" by simp
  moreover have "CHR ''-'' \<notin> set (showNat n)" by (rule showNat_avoids) simp
  ultimately show False by contradiction
qed

lemma showInt_inj: "showInt i = showInt j \<Longrightarrow> i = j"
proof -
  assume eq: "showInt i = showInt j"
  show "i = j"
  proof (cases "i < 0")
    case i: True
    show ?thesis
    proof (cases "j < 0")
      case True
      with i eq have "nat (- i) = nat (- j)" by (simp add: showInt_def showNat_inj)
      with i True show ?thesis by simp
    next
      case False
      with i eq showNat_no_minus [of "nat j" "showNat (nat (- i))"] show ?thesis
        by (simp add: showInt_def)
    qed
  next
    case i: False
    show ?thesis
    proof (cases "j < 0")
      case True
      with i eq showNat_no_minus [of "nat i"] show ?thesis by (simp add: showInt_def)
    next
      case False
      with i eq have "nat i = nat j" by (simp add: showInt_def showNat_inj)
      with i False show ?thesis by simp
    qed
  qed
qed

lemma join_Cons: "join [c] (x # xs) = x @ joinTail c xs"
  by (cases xs) (simp_all add: joinTail_def)

lemma takeWhile_joinTail:
  assumes "c \<notin> set x"
  shows "takeWhile (\<lambda>a. a \<noteq> c) (x @ joinTail c xs) = x"
proof -
  have all: "\<forall>a \<in> set x. a \<noteq> c" using assms by auto
  show ?thesis
  proof (cases "xs = []")
    case True
    with all show ?thesis by (simp add: joinTail_def takeWhile_eq_all_conv)
  next
    case False
    with all show ?thesis by (simp add: joinTail_def)
  qed
qed

lemma split_at_separator:
  assumes "c \<notin> set x" "c \<notin> set y" "x @ joinTail c xs = y @ joinTail c ys"
  shows "x = y \<and> joinTail c xs = joinTail c ys"
proof -
  have "x = takeWhile (\<lambda>a. a \<noteq> c) (x @ joinTail c xs)"
    using takeWhile_joinTail [OF assms(1)] by simp
  also have "\<dots> = takeWhile (\<lambda>a. a \<noteq> c) (y @ joinTail c ys)" using assms(3) by simp
  also have "\<dots> = y" by (rule takeWhile_joinTail [OF assms(2)])
  finally have "x = y" .
  with assms(3) show ?thesis by simp
qed

lemma split_first_separator:
  assumes "c \<notin> set x" "c \<notin> set y" "x @ c # r = y @ c # r'"
  shows "x = y \<and> r = r'"
proof -
  have all: "\<forall>a \<in> set x. a \<noteq> c" "\<forall>a \<in> set y. a \<noteq> c" using assms(1,2) by auto
  have "x = takeWhile (\<lambda>a. a \<noteq> c) (x @ c # r)" using all(1) by simp
  also have "\<dots> = takeWhile (\<lambda>a. a \<noteq> c) (y @ c # r')" using assms(3) by simp
  also have "\<dots> = y" using all(2) by simp
  finally have "x = y" .
  with assms(3) show ?thesis by simp
qed

lemma join_nonempty:
  "xs \<noteq> [] \<Longrightarrow> \<forall>x \<in> set xs. x \<noteq> [] \<Longrightarrow> join [c] xs \<noteq> []"
  by (cases xs) (simp_all add: join_Cons)

lemma join_inj_nonempty:
  assumes "\<forall>x \<in> set xs \<union> set ys. x \<noteq> [] \<and> c \<notin> set x" "join [c] xs = join [c] ys"
  shows "xs = ys"
  using assms
proof (induction xs arbitrary: ys)
  case Nil
  then show ?case using join_nonempty [of ys c] by (cases "ys = []") auto
next
  case (Cons x xs)
  show ?case
  proof (cases ys)
    case Nil
    with Cons.prems join_nonempty [of "x # xs" c] show ?thesis by auto
  next
    case (Cons y ys')
    with Cons.prems have "x @ joinTail c xs = y @ joinTail c ys'" by (simp add: join_Cons)
    with Cons.prems Cons have xy: "x = y" and tl: "joinTail c xs = joinTail c ys'"
      using split_at_separator [of c x y xs ys'] by auto
    have "join [c] xs = join [c] ys'"
    proof (cases "xs = []")
      case True
      with tl have "ys' = []" by (auto simp: joinTail_def split: if_splits)
      with True show ?thesis by simp
    next
      case False
      with tl have "ys' \<noteq> []" by (auto simp: joinTail_def split: if_splits)
      with False tl show ?thesis by (simp add: joinTail_def)
    qed
    with Cons.IH [of ys'] Cons.prems Cons xy show ?thesis by simp
  qed
qed

lemma arrayToString_inj: "arrayToString xs = arrayToString ys \<Longrightarrow> xs = ys"
proof -
  assume eq: "arrayToString xs = arrayToString ys"
  have "\<forall>x \<in> set (map showInt xs) \<union> set (map showInt ys). x \<noteq> [] \<and> CHR '','' \<notin> set x"
    using showInt_no_comma showInt_nonempty by auto
  with eq have "map showInt xs = map showInt ys"
    unfolding arrayToString_def by (intro join_inj_nonempty [of _ _ "CHR '',''"]) simp_all
  moreover have "inj showInt" by (rule injI) (rule showInt_inj)
  ultimately show "xs = ys" by (simp add: inj_map_eq_map)
qed

lemma arrayToString_no_underscore: "CHR ''_'' \<notin> set (arrayToString xs)"
proof (induction xs)
  case Nil
  then show ?case by (simp add: arrayToString_def)
next
  case (Cons x xs)
  have "CHR ''_'' \<notin> set (showInt x)" by (rule showInt_no_underscore)
  with Cons show ?case
    by (cases xs) (simp_all add: arrayToString_def)
qed

lemma join_append: "xs \<noteq> [] \<Longrightarrow> join [c] (xs @ ys) = join [c] xs @ joinTail c ys"
proof (induction xs)
  case Nil
  then show ?case by simp
next
  case (Cons x xs)
  show ?case
  proof (cases "xs = []")
    case True
    then show ?thesis by (simp add: join_Cons)
  next
    case False
    with Cons.IH have "join [c] (xs @ ys) = join [c] xs @ joinTail c ys" by simp
    with False show ?thesis by (simp add: join_Cons joinTail_def)
  qed
qed

lemma pairToArray_inj: "pairToArray p = pairToArray q \<Longrightarrow> p = q"
  by (simp add: pairToArray_def prod_eq_iff)

lemma infoKey_join_inj:
  assumes "length ss = length ts" "join ''_'' (map infoKey ss) = join ''_'' (map infoKey ts)"
  shows "ss = ts"
  using assms
proof (induction ss ts rule: list_induct2)
  case Nil
  then show ?case by simp
next
  case (Cons s ss t ts)
  let ?u = "CHR ''_''"
  have ks: "infoKey s = arrayToString (logicalShape s) @ ?u # arrayToString (pairToArray (texShape s))"
    "infoKey t = arrayToString (logicalShape t) @ ?u # arrayToString (pairToArray (texShape t))"
    by (simp_all add: infoKey_def)
  from Cons.prems have
    "arrayToString (logicalShape s) @ ?u #
       (arrayToString (pairToArray (texShape s)) @ joinTail ?u (map infoKey ss)) =
     arrayToString (logicalShape t) @ ?u #
       (arrayToString (pairToArray (texShape t)) @ joinTail ?u (map infoKey ts))"
    by (simp add: join_Cons ks)
  from split_first_separator [OF arrayToString_no_underscore arrayToString_no_underscore this]
  have l: "arrayToString (logicalShape s) = arrayToString (logicalShape t)"
    and rest: "arrayToString (pairToArray (texShape s)) @ joinTail ?u (map infoKey ss) =
               arrayToString (pairToArray (texShape t)) @ joinTail ?u (map infoKey ts)"
    by simp_all
  from split_at_separator [OF arrayToString_no_underscore arrayToString_no_underscore rest]
  have x: "arrayToString (pairToArray (texShape s)) = arrayToString (pairToArray (texShape t))"
    and tl: "joinTail ?u (map infoKey ss) = joinTail ?u (map infoKey ts)"
    by simp_all
  from tl Cons.hyps have "join ''_'' (map infoKey ss) = join ''_'' (map infoKey ts)"
    by (cases ss; cases ts) (simp_all add: joinTail_def)
  with Cons.IH have "ss = ts" by simp
  moreover have "logicalShape s = logicalShape t" using l by (rule arrayToString_inj)
  moreover have "texShape s = texShape t"
    using x by (intro pairToArray_inj arrayToString_inj)
  ultimately show ?case by simp
qed

lemma makeShaderKey_unfold:
  "makeShaderKey prog inputs output =
     constructorName prog @ CHR ''_'' #
     boolToString (supportsBroadcasting prog = Some True) @ CHR ''_'' #
     join ''_'' (map infoKey (map shapeInfoOf (inputs @ [output]))) @
     joinTail CHR ''_'' (params prog)"
proof -
  have m: "map (\<lambda>x. arrayToString (shape x) @ ''_'' @
                     arrayToString (pairToArray (getTextureShapeRC x))) xs =
           map infoKey (map shapeInfoOf xs)" for xs
    by (simp add: infoKey_def shapeInfoOf_def)
  have ne: "map infoKey (map shapeInfoOf (inputs @ [output])) \<noteq> []" by simp
  have ne2: "map infoKey (map shapeInfoOf (inputs @ [output])) @ params prog \<noteq> []" by simp
  show ?thesis
    unfolding makeShaderKey_def Let_def m
    using join_append [OF ne, of "CHR ''_''" "params prog"] ne2
    by (simp add: join_Cons joinTail_def del: map_append)
qed


subsection \<open>Evaluation of the examples\<close>

lemma accepts_exampleEnv: "accepts exampleEnv"
  by (simp add: accepts_def exampleEnv_def)

lemmas example_defs =
  exampleContext_def disposedContext_def busyContext_def arrayA_def arrayB_def arrayC_def
  arrayOut_def exampleProgram_def exampleBinary_def

lemma validate_example_inputs:
  "validateBinaryAndProgram (inShapeInfos exampleBinary) [arrayA, arrayB] = Inr ()"
  by (simp add: validate_ok shapeInfoOf_def getTextureShapeRC_def example_defs)

lemma validate_example_output:
  "validateBinaryAndProgram [outShapeInfo exampleBinary] [arrayOut] = Inr ()"
  by (simp add: validate_ok shapeInfoOf_def getTextureShapeRC_def example_defs)

section \<open>The claims\<close>

subsection \<open>C1: a shape mismatch aborts the run before any side effect\<close>

text \<open>
  Claim C1. \<^verbatim>\<open>runProgram\<close> compares the current (logical shape, texture shape) of every
  input and of the output with the binary's snapshot. When the number of inputs is the
  one the binary was compiled for and some pair differs, the call throws an error whose
  message names the two shapes of a differing pair, first the captured one, then the
  current one: the two logical shapes when they differ, otherwise the two texture
  shapes, each written as its numbers separated by commas. The context returned with
  the error is the context the call started from, whatever the driver and the setup
  hook are, so no binding or execution call was issued, and any execution that follows
  the failed call gives what it would have given without it.
\<close>

theorem runProgram_shape_mismatch:
  assumes len: "length (inShapeInfos binary) = length inputs"
    and diff: "map shapeInfoOf (inputs @ [output]) \<noteq> inShapeInfos binary @ [outShapeInfo binary]"
  shows "(\<exists>k < length (inputs @ [output]).
           (let A = (inShapeInfos binary @ [outShapeInfo binary]) ! k;
                B = (inputs @ [output]) ! k
            in shapeInfoOf B \<noteq> A \<and>
               runProgram e binary inputs output customSetup c =
                 (Inl (Error (if logicalShape A \<noteq> shape B
                              then ''Binary was compiled with different shapes than '' @
                                   ''the current args. Shapes '' @
                                   arrayToString (logicalShape A) @ '' and '' @
                                   arrayToString (shape B) @ '' must match''
                              else ''Binary was compiled with different texture shapes than the'' @
                                   '' current args. Shape '' @
                                   arrayToString [fst (texShape A), snd (texShape A)] @ '' and '' @
                                   arrayToString [fst (getTextureShapeRC B),
                                                  snd (getTextureShapeRC B)] @
                                   '' must match'')), c))) \<and>
         runProgram e2 binary2 inputs2 output2 customSetup2
             (snd (runProgram e binary inputs output customSetup c)) =
           runProgram e2 binary2 inputs2 output2 customSetup2 c"
proof -
  have msg: "checkShapes s x = Inl err \<Longrightarrow>
     err = Error (if logicalShape s \<noteq> shape x
                  then ''Binary was compiled with different shapes than '' @
                       ''the current args. Shapes '' @
                       arrayToString (logicalShape s) @ '' and '' @
                       arrayToString (shape x) @ '' must match''
                  else ''Binary was compiled with different texture shapes than the'' @
                       '' current args. Shape '' @
                       arrayToString [fst (texShape s), snd (texShape s)] @ '' and '' @
                       arrayToString [fst (getTextureShapeRC x), snd (getTextureShapeRC x)] @
                       '' must match'')" for s x err
    by (drule checkShapes_fail)
       (simp add: shapeMismatchMessage_def texShapeMismatchMessage_def pairToArray_def)
  have main: "\<exists>k < length (inputs @ [output]).
           (let A = (inShapeInfos binary @ [outShapeInfo binary]) ! k;
                B = (inputs @ [output]) ! k
            in shapeInfoOf B \<noteq> A \<and>
               runProgram e binary inputs output customSetup c =
                 (Inl (Error (if logicalShape A \<noteq> shape B
                              then ''Binary was compiled with different shapes than '' @
                                   ''the current args. Shapes '' @
                                   arrayToString (logicalShape A) @ '' and '' @
                                   arrayToString (shape B) @ '' must match''
                              else ''Binary was compiled with different texture shapes than the'' @
                                   '' current args. Shape '' @
                                   arrayToString [fst (texShape A), snd (texShape A)] @ '' and '' @
                                   arrayToString [fst (getTextureShapeRC B),
                                                  snd (getTextureShapeRC B)] @
                                   '' must match'')), c))"
  proof (cases "validateBinaryAndProgram (inShapeInfos binary) inputs")
    case (Inl err)
    from validate_fail [OF Inl len] obtain k where k: "k < length inputs"
      "shapeInfoOf (inputs ! k) \<noteq> inShapeInfos binary ! k"
      "checkShapes (inShapeInfos binary ! k) (inputs ! k) = Inl err" by blast
    have run: "runProgram e binary inputs output customSetup c = (Inl err, c)"
      by (simp add: runProgram_def lift_def Inl)
    have "k < length (inputs @ [output])" using k(1) by simp
    moreover have "(inShapeInfos binary @ [outShapeInfo binary]) ! k = inShapeInfos binary ! k"
      using k(1) len by (simp add: nth_append)
    moreover have "(inputs @ [output]) ! k = inputs ! k" using k(1) by (simp add: nth_append)
    ultimately show ?thesis using k(2) run msg [OF k(3)]
      by (intro exI [of _ k]) (simp add: Let_def)
  next
    case (Inr u)
    then have ins: "map shapeInfoOf inputs = inShapeInfos binary" by (simp add: validate_ok)
    with diff have out: "shapeInfoOf output \<noteq> outShapeInfo binary" by auto
    then obtain err where err: "validateBinaryAndProgram [outShapeInfo binary] [output] = Inl err"
      using validate_ok [of "[outShapeInfo binary]" "[output]"]
      by (cases "validateBinaryAndProgram [outShapeInfo binary] [output]") auto
    from validate_fail [OF err] have chk: "checkShapes (outShapeInfo binary) output = Inl err"
      by auto
    have run: "runProgram e binary inputs output customSetup c = (Inl err, c)"
      by (simp add: runProgram_def lift_def Inr err)
    show ?thesis using out run msg [OF chk] len
      by (intro exI [of _ "length inputs"]) (simp add: Let_def nth_append)
  qed
  then have "snd (runProgram e binary inputs output customSetup c) = c"
    by (auto simp: Let_def)
  with main show ?thesis by simp
qed

text \<open>
  The binary compiled for a \<open>2\<times>3\<close> and a \<open>1\<times>1\<close> input. Run with a \<open>2\<times>4\<close> first
  input, the error names the logical shapes \<open>2,3\<close> and \<open>2,4\<close>; run with a first input
  of the right logical shape on a \<open>3\<times>2\<close> texture, it names the texture shapes \<open>2,3\<close>
  and \<open>3,2\<close>. The context is untouched, and the run with the right inputs that follows
  goes as on the fresh context.
\<close>

theorem runProgram_shape_mismatch_witness:
  "length (inShapeInfos exampleBinary) = length [arrayC, arrayB] \<and>
   map shapeInfoOf ([arrayC, arrayB] @ [arrayOut]) \<noteq>
     inShapeInfos exampleBinary @ [outShapeInfo exampleBinary] \<and>
   length (inShapeInfos exampleBinary) = length [arrayT, arrayB] \<and>
   map shapeInfoOf ([arrayT, arrayB] @ [arrayOut]) \<noteq>
     inShapeInfos exampleBinary @ [outShapeInfo exampleBinary] \<and>
   runProgram exampleEnv exampleBinary [arrayC, arrayB] arrayOut None exampleContext =
     (Inl (Error (''Binary was compiled with different shapes than the current args. '' @
                  ''Shapes 2,3 and 2,4 must match'')), exampleContext) \<and>
   runProgram exampleEnv exampleBinary [arrayT, arrayB] arrayOut None exampleContext =
     (Inl (Error (''Binary was compiled with different texture shapes than the current args. '' @
                  ''Shape 2,3 and 3,2 must match'')), exampleContext) \<and>
   runProgram exampleEnv exampleBinary [arrayA, arrayB] arrayOut None
       (snd (runProgram exampleEnv exampleBinary [arrayT, arrayB] arrayOut None exampleContext)) =
     runProgram exampleEnv exampleBinary [arrayA, arrayB] arrayOut None exampleContext"
proof -
  note evals = Let_def shapeInfoOf_def getTextureShapeRC_def arrayToString_def showInt_def
    showNat.simps digitChar_def exampleBinary_def arrayA_def arrayB_def arrayC_def
    arrayT_def arrayOut_def
  have h1: "length (inShapeInfos exampleBinary) = length [arrayC, arrayB]"
    by (simp add: exampleBinary_def)
  have h2: "map shapeInfoOf ([arrayC, arrayB] @ [arrayOut]) \<noteq>
              inShapeInfos exampleBinary @ [outShapeInfo exampleBinary]"
    by (simp add: evals)
  have h3: "length (inShapeInfos exampleBinary) = length [arrayT, arrayB]"
    by (simp add: exampleBinary_def)
  have h4: "map shapeInfoOf ([arrayT, arrayB] @ [arrayOut]) \<noteq>
              inShapeInfos exampleBinary @ [outShapeInfo exampleBinary]"
    by (simp add: evals)
  note logical = runProgram_shape_mismatch [OF h1 h2, of exampleEnv None exampleContext
      exampleEnv exampleBinary "[arrayA, arrayB]" arrayOut None]
  note textural = runProgram_shape_mismatch [OF h3 h4, of exampleEnv None exampleContext
      exampleEnv exampleBinary "[arrayA, arrayB]" arrayOut None]
  have r1: "runProgram exampleEnv exampleBinary [arrayC, arrayB] arrayOut None exampleContext =
     (Inl (Error (''Binary was compiled with different shapes than the current args. '' @
                  ''Shapes 2,3 and 2,4 must match'')), exampleContext)"
  proof -
    from logical obtain k where k: "k < length ([arrayC, arrayB] @ [arrayOut])"
      and b: "let A = (inShapeInfos exampleBinary @ [outShapeInfo exampleBinary]) ! k;
                  B = ([arrayC, arrayB] @ [arrayOut]) ! k
              in shapeInfoOf B \<noteq> A \<and>
                 runProgram exampleEnv exampleBinary [arrayC, arrayB] arrayOut None exampleContext =
                 (Inl (Error (if logicalShape A \<noteq> shape B
                              then ''Binary was compiled with different shapes than '' @
                                   ''the current args. Shapes '' @
                                   arrayToString (logicalShape A) @ '' and '' @
                                   arrayToString (shape B) @ '' must match''
                              else ''Binary was compiled with different texture shapes than the'' @
                                   '' current args. Shape '' @
                                   arrayToString [fst (texShape A), snd (texShape A)] @ '' and '' @
                                   arrayToString [fst (getTextureShapeRC B),
                                                  snd (getTextureShapeRC B)] @
                                   '' must match'')), exampleContext)"
      by blast
    from k have "k = 0 \<or> k = 1 \<or> k = 2" by auto
    then show ?thesis
    proof (elim disjE)
      assume "k = 0" with b show ?thesis by (simp add: evals)
    next
      assume "k = 1" with b show ?thesis by (simp add: evals)
    next
      assume "k = 2" with b show ?thesis by (simp add: evals)
    qed
  qed
  have r2: "runProgram exampleEnv exampleBinary [arrayT, arrayB] arrayOut None exampleContext =
     (Inl (Error (''Binary was compiled with different texture shapes than the current args. '' @
                  ''Shape 2,3 and 3,2 must match'')), exampleContext)"
  proof -
    from textural obtain k where k: "k < length ([arrayT, arrayB] @ [arrayOut])"
      and b: "let A = (inShapeInfos exampleBinary @ [outShapeInfo exampleBinary]) ! k;
                  B = ([arrayT, arrayB] @ [arrayOut]) ! k
              in shapeInfoOf B \<noteq> A \<and>
                 runProgram exampleEnv exampleBinary [arrayT, arrayB] arrayOut None exampleContext =
                 (Inl (Error (if logicalShape A \<noteq> shape B
                              then ''Binary was compiled with different shapes than '' @
                                   ''the current args. Shapes '' @
                                   arrayToString (logicalShape A) @ '' and '' @
                                   arrayToString (shape B) @ '' must match''
                              else ''Binary was compiled with different texture shapes than the'' @
                                   '' current args. Shape '' @
                                   arrayToString [fst (texShape A), snd (texShape A)] @ '' and '' @
                                   arrayToString [fst (getTextureShapeRC B),
                                                  snd (getTextureShapeRC B)] @
                                   '' must match'')), exampleContext)"
      by blast
    from k have "k = 0 \<or> k = 1 \<or> k = 2" by auto
    then show ?thesis
    proof (elim disjE)
      assume "k = 0" with b show ?thesis by (simp add: evals)
    next
      assume "k = 1" with b show ?thesis by (simp add: evals)
    next
      assume "k = 2" with b show ?thesis by (simp add: evals)
    qed
  qed
  from textural have r3: "runProgram exampleEnv exampleBinary [arrayA, arrayB] arrayOut None
       (snd (runProgram exampleEnv exampleBinary [arrayT, arrayB] arrayOut None exampleContext)) =
     runProgram exampleEnv exampleBinary [arrayA, arrayB] arrayOut None exampleContext"
    by blast
  from h1 h2 h3 h4 r1 r2 r3 show ?thesis by blast
qed

subsection \<open>C2: the order of a validated run\<close>

text \<open>
  Claim C2. When both shape validations of \<^verbatim>\<open>runProgram\<close> succeed, the call is exactly
  this sequence, each step running only if the ones before it returned: bind the output
  texture as render target (\<^verbatim>\<open>setOutputMatrixTexture\<close> with the rows and columns of the
  output's texture shape), make the binary's program active (\<^verbatim>\<open>setProgram\<close>), bind the
  texture of each input, in the order of the input list, to the name at the same
  position of \<^verbatim>\<open>variableNames\<close> and to the texture unit of that position, run the setup
  hook if one is given, then \<^verbatim>\<open>executeProgram\<close>. On a live context with an accepting
  driver the first three steps issue the calls of \<open>boundForRun\<close> in that order; the hook
  then runs on that context, the execution on the context the hook leaves; without a
  hook the run ends with the calls of the draw.
\<close>

theorem runProgram_sequence:
  assumes v1: "validateBinaryAndProgram (inShapeInfos binary) inputs = Inr ()"
    and v2: "validateBinaryAndProgram [outShapeInfo binary] [output] = Inr ()"
    and live: "\<not> disposed c" and acc: "accepts e"
  shows "runProgram e' binary inputs output customSetup c' =
           seq [setOutputMatrixTexture e' (getTexture output) (fst (getTextureShapeRC output))
                  (snd (getTextureShapeRC output)),
                setProgram e' (Some (webGLProgram binary)),
                seq (map (\<lambda>(i, input).
                            setInputMatrixTexture e' (getTexture input)
                              (jsIndex (variableNames (gpgpuProgram binary)) i) (int i))
                         (enumerate 0 inputs)),
                (case customSetup of Some hook \<Rightarrow> hook | None \<Rightarrow> ret ()),
                executeProgram e'] c' \<and>
         runProgram e binary inputs output (Some hook) c =
           andThen hook (\<lambda>_. executeProgram e) (boundForRun binary inputs output c) \<and>
         runProgram e binary inputs output None c =
           (Inr (), (boundForRun binary inputs output c)
              \<lparr>gl := gl (boundForRun binary inputs output c) @
                     [BindVertexProgramAttributeStreams (Some (webGLProgram binary)) (vertexBuffer c)] @
                     (if autoDebugValidate c
                      then [ValidateProgram (webGLProgram binary), ValidateFramebuffer] else []) @
                     [DrawElementsTriangles 6 0]\<rparr>)"
proof (intro conjI)
  show "runProgram e' binary inputs output customSetup c' =
           seq [setOutputMatrixTexture e' (getTexture output) (fst (getTextureShapeRC output))
                  (snd (getTextureShapeRC output)),
                setProgram e' (Some (webGLProgram binary)),
                seq (map (\<lambda>(i, input).
                            setInputMatrixTexture e' (getTexture input)
                              (jsIndex (variableNames (gpgpuProgram binary)) i) (int i))
                         (enumerate 0 inputs)),
                (case customSetup of Some hook \<Rightarrow> hook | None \<Rightarrow> ret ()),
                executeProgram e'] c'"
    unfolding runProgram_def by (simp add: lift_def v1 v2 Let_def)
next
  define c1 where "c1 = c\<lparr>outputTexture := Some (getTexture output),
       gl := gl c @
             [BindColorTextureToFramebuffer (getTexture output) (framebuffer c)] @
             (if autoDebugValidate c then [ValidateFramebuffer] else []) @
             [Viewport 0 0 (snd (getTextureShapeRC output)) (fst (getTextureShapeRC output)),
              Scissor 0 0 (snd (getTextureShapeRC output)) (fst (getTextureShapeRC output))]\<rparr>"
  have s1: "setOutputMatrixTexture e (getTexture output) (fst (getTextureShapeRC output))
              (snd (getTextureShapeRC output)) c = (Inr (), c1)"
    using live acc
    by (simp add: setOutputMatrixTexture_def setOutputMatrixTextureDriver_run c1_def)
  define c2 where "c2 = c1\<lparr>program := Some (webGLProgram binary),
       gl := gl c1 @ (if autoDebugValidate c1 then [ValidateProgram (webGLProgram binary)] else []) @
             [UseProgram (Some (webGLProgram binary))]\<rparr>"
  have live1: "\<not> disposed c1" using live by (simp add: c1_def)
  have s2: "setProgram e (Some (webGLProgram binary)) c1 = (Inr (), c2)"
    unfolding c2_def using live1 acc by (rule setProgram_run)
  define c3 where "c3 = c2\<lparr>gl := gl c2 @
       map (inputBinding (webGLProgram binary) (variableNames (gpgpuProgram binary)))
           (enumerate 0 inputs)\<rparr>"
  have live2: "\<not> disposed c2" and prog2: "program c2 = Some (webGLProgram binary)"
    using live1 by (simp_all add: c2_def)
  have s3: "seq (map (\<lambda>(i, input).
                     setInputMatrixTexture e (getTexture input)
                          (jsIndex (variableNames (gpgpuProgram binary)) i) (int i))
                  (enumerate 0 inputs)) c2 = (Inr (), c3)"
    unfolding c3_def using live2 prog2 acc by (rule bindInputs_run)
  have c3: "c3 = boundForRun binary inputs output c"
    by (simp add: boundForRun_def c1_def c2_def c3_def)
  have upto: "runProgram e binary inputs output hk c =
           seq [(case hk of Some hook \<Rightarrow> hook | None \<Rightarrow> ret ()), executeProgram e]
               (boundForRun binary inputs output c)" for hk
    unfolding runProgram_def
    by (simp add: lift_def v1 v2 Let_def s1 s2 s3 c3)
  show "runProgram e binary inputs output (Some hook) c =
           andThen hook (\<lambda>_. executeProgram e) (boundForRun binary inputs output c)"
    by (simp add: upto andThen_def split: prod.splits sum.splits)
  have live': "\<not> disposed (boundForRun binary inputs output c)"
    and prog': "program (boundForRun binary inputs output c) = Some (webGLProgram binary)"
    using live by (simp_all add: boundForRun_def)
  have "executeProgram e (boundForRun binary inputs output c) =
          (Inr (), (boundForRun binary inputs output c)
              \<lparr>gl := gl (boundForRun binary inputs output c) @
                     [BindVertexProgramAttributeStreams (Some (webGLProgram binary))
                        (vertexBuffer (boundForRun binary inputs output c))] @
                     (if autoDebugValidate (boundForRun binary inputs output c)
                      then [ValidateProgram (webGLProgram binary), ValidateFramebuffer] else []) @
                     [DrawElementsTriangles 6 0]\<rparr>)"
    using live' prog' acc by (rule executeProgram_run)
  moreover have "vertexBuffer (boundForRun binary inputs output c) = vertexBuffer c"
    "autoDebugValidate (boundForRun binary inputs output c) = autoDebugValidate c"
    by (simp_all add: boundForRun_def)
  ultimately show "runProgram e binary inputs output None c =
           (Inr (), (boundForRun binary inputs output c)
              \<lparr>gl := gl (boundForRun binary inputs output c) @
                     [BindVertexProgramAttributeStreams (Some (webGLProgram binary)) (vertexBuffer c)] @
                     (if autoDebugValidate c
                      then [ValidateProgram (webGLProgram binary), ValidateFramebuffer] else []) @
                     [DrawElementsTriangles 6 0]\<rparr>)"
    by (simp add: upto ret_def)
qed

text \<open>
  The example binary run on its two inputs, without a hook, on a fresh context: the
  calls reach the driver in the order output, program, input \<open>A\<close>, input \<open>B\<close>, draw.
\<close>

theorem runProgram_sequence_witness:
  "validateBinaryAndProgram (inShapeInfos exampleBinary) [arrayA, arrayB] = Inr () \<and>
   validateBinaryAndProgram [outShapeInfo exampleBinary] [arrayOut] = Inr () \<and>
   \<not> disposed exampleContext \<and> accepts exampleEnv \<and>
   runProgram exampleEnv exampleBinary [arrayA, arrayB] arrayOut None exampleContext =
     (Inr (), exampleContext
        \<lparr>outputTexture := Some 12, program := Some 7,
         gl := [BindColorTextureToFramebuffer 12 3,
                Viewport 0 0 3 2, Scissor 0 0 3 2,
                UseProgram (Some 7),
                BindTextureToProgramUniformSampler (Some 7) 10 (Some ''A'') 0,
                BindTextureToProgramUniformSampler (Some 7) 11 (Some ''B'') 1,
                BindVertexProgramAttributeStreams (Some 7) 1,
                DrawElementsTriangles 6 0]\<rparr>)"
proof -
  have live: "\<not> disposed exampleContext" by (simp add: exampleContext_def)
  from runProgram_sequence [OF validate_example_inputs validate_example_output live
      accepts_exampleEnv]
  have "runProgram exampleEnv exampleBinary [arrayA, arrayB] arrayOut None exampleContext =
           (Inr (), (boundForRun exampleBinary [arrayA, arrayB] arrayOut exampleContext)
              \<lparr>gl := gl (boundForRun exampleBinary [arrayA, arrayB] arrayOut exampleContext) @
                     [BindVertexProgramAttributeStreams (Some (webGLProgram exampleBinary))
                        (vertexBuffer exampleContext)] @
                     (if autoDebugValidate exampleContext
                      then [ValidateProgram (webGLProgram exampleBinary), ValidateFramebuffer]
                      else []) @
                     [DrawElementsTriangles 6 0]\<rparr>)"
    by blast
  then have "runProgram exampleEnv exampleBinary [arrayA, arrayB] arrayOut None exampleContext =
     (Inr (), exampleContext
        \<lparr>outputTexture := Some 12, program := Some 7,
         gl := [BindColorTextureToFramebuffer 12 3,
                Viewport 0 0 3 2, Scissor 0 0 3 2,
                UseProgram (Some 7),
                BindTextureToProgramUniformSampler (Some 7) 10 (Some ''A'') 0,
                BindTextureToProgramUniformSampler (Some 7) 11 (Some ''B'') 1,
                BindVertexProgramAttributeStreams (Some 7) 1,
                DrawElementsTriangles 6 0]\<rparr>)"
    by (simp add: boundForRun_def inputBinding_def jsIndex_def getTexture_def
        getTextureShapeRC_def example_defs)
  with validate_example_inputs validate_example_output live accepts_exampleEnv
  show ?thesis by blast
qed

subsection \<open>C3: the shader key\<close>

text \<open>
  Claim C3. \<^verbatim>\<open>makeShaderKey\<close> depends only on the descriptor's operation identity,
  broadcasting flag and auxiliary parameters and on the (logical shape, texture shape)
  of the inputs and the output: for two calls that agree on the descriptor data and on
  the number of inputs, the keys are equal exactly when all shapes are equal. So equal
  data give equal keys (whatever the textures, the user code or the variable names
  are), and a change of any dimension of any logical or texture shape changes the key.
\<close>

theorem makeShaderKey_shapes:
  assumes "constructorName p = constructorName p'"
    and "(supportsBroadcasting p = Some True) = (supportsBroadcasting p' = Some True)"
    and "params p = params p'"
    and "length inputs = length inputs'"
  shows "makeShaderKey p inputs output = makeShaderKey p' inputs' output' \<longleftrightarrow>
           map shapeInfoOf (inputs @ [output]) = map shapeInfoOf (inputs' @ [output'])"
proof
  assume "map shapeInfoOf (inputs @ [output]) = map shapeInfoOf (inputs' @ [output'])"
  with assms(1-3) show "makeShaderKey p inputs output = makeShaderKey p' inputs' output'"
    by (simp only: makeShaderKey_unfold)
next
  assume "makeShaderKey p inputs output = makeShaderKey p' inputs' output'"
  with assms(1-3) have
    "join ''_'' (map infoKey (map shapeInfoOf (inputs @ [output]))) =
     join ''_'' (map infoKey (map shapeInfoOf (inputs' @ [output'])))"
    by (simp only: makeShaderKey_unfold same_append_eq append_same_eq list.inject simp_thms)
  moreover have "length (map shapeInfoOf (inputs @ [output])) =
                 length (map shapeInfoOf (inputs' @ [output']))"
    using assms(4) by simp
  ultimately show "map shapeInfoOf (inputs @ [output]) = map shapeInfoOf (inputs' @ [output'])"
    by (intro infoKey_join_inj)
qed

text \<open>
  The example descriptor and a copy of it with other user code: the key of the \<open>2\<times>3\<close>
  and \<open>1\<times>1\<close> inputs is the expected string, and widening the first input to \<open>2\<times>4\<close>
  gives another key.
\<close>

theorem makeShaderKey_shapes_witness:
  "constructorName exampleProgram = constructorName (exampleProgram\<lparr>userCode := ''setOutput(a * b);''\<rparr>) \<and>
   (supportsBroadcasting exampleProgram = Some True) =
     (supportsBroadcasting (exampleProgram\<lparr>userCode := ''setOutput(a * b);''\<rparr>) = Some True) \<and>
   params exampleProgram = params (exampleProgram\<lparr>userCode := ''setOutput(a * b);''\<rparr>) \<and>
   length [arrayA, arrayB] = length [arrayC, arrayB] \<and>
   makeShaderKey exampleProgram [arrayA, arrayB] arrayOut \<noteq>
     makeShaderKey (exampleProgram\<lparr>userCode := ''setOutput(a * b);''\<rparr>) [arrayC, arrayB] arrayOut \<and>
   makeShaderKey exampleProgram [arrayA, arrayB] arrayOut =
     ''BinaryOpProgram_true_2,3_2,3_1,1_1,1_2,3_2,3''"
proof -
  let ?q = "exampleProgram\<lparr>userCode := ''setOutput(a * b);''\<rparr>"
  have h1: "constructorName exampleProgram = constructorName ?q" by simp
  have h2: "(supportsBroadcasting exampleProgram = Some True) =
              (supportsBroadcasting ?q = Some True)" by simp
  have h3: "params exampleProgram = params ?q" by simp
  have h4: "length [arrayA, arrayB] = length [arrayC, arrayB]" by simp
  have d: "map shapeInfoOf ([arrayA, arrayB] @ [arrayOut]) \<noteq>
             map shapeInfoOf ([arrayC, arrayB] @ [arrayOut])"
    by (simp add: shapeInfoOf_def arrayA_def arrayC_def)
  have k: "makeShaderKey exampleProgram [arrayA, arrayB] arrayOut \<noteq>
             makeShaderKey ?q [arrayC, arrayB] arrayOut"
    using makeShaderKey_shapes [OF h1 h2 h3 h4, of arrayOut arrayOut] d by simp
  have v: "makeShaderKey exampleProgram [arrayA, arrayB] arrayOut =
             ''BinaryOpProgram_true_2,3_2,3_1,1_1,1_2,3_2,3''"
    by (simp add: makeShaderKey_def boolToString_def arrayToString_def pairToArray_def
        showInt_def showNat.simps digitChar_def getTextureShapeRC_def example_defs)
  from h1 h2 h3 h4 k v show ?thesis by blast
qed

subsection \<open>C4: use after dispose, use without a program\<close>

text \<open>
  Claim C4 says that every public operation fails with the usage error after
  \<^verbatim>\<open>dispose\<close>. Two public methods have no such check: on a disposed context
  \<^verbatim>\<open>enableAutomaticDebugValidation\<close> returns normally and sets the flag, and
  \<^verbatim>\<open>debugValidate\<close> runs its validations and returns normally when the driver accepts
  them.
\<close>

theorem unguarded_operations_counterexample:
  "disposed disposedContext \<and>
   enableAutomaticDebugValidation True disposedContext =
     (Inr (), disposedContext\<lparr>gl := [EnableDebugWebGLErrorChecking True],
                              autoDebugValidate := True\<rparr>) \<and>
   debugValidate exampleEnv disposedContext =
     (Inr (), disposedContext\<lparr>gl := [ValidateFramebuffer]\<rparr>)"
  by (simp add: enableAutomaticDebugValidation_def debugValidate_def ret_def glIssue_def
      glCall_def exampleEnv_def disposedContext_def exampleContext_def)

text \<open>
  Claim C4, amended. Every public operation of the context other than
  \<^verbatim>\<open>enableAutomaticDebugValidation\<close>, \<^verbatim>\<open>debugValidate\<close> and
  \<^verbatim>\<open>setOutputPackedMatrixWriteRegion\<close> fails on a disposed context with the error
  \<^verbatim>\<open>Attempted to use disposed GPGPUContext.\<close> and leaves the context as it was. The
  first two of the three exceptions keep the context disposed, and the third throws its
  own \<^verbatim>\<open>not implemented\<close> error in every state \<open>s\<close> of the context and leaves it as it
  was; so no operation leaves the Disposed state.
  On a live context with no bound program \<^verbatim>\<open>getUniformLocation\<close>,
  \<^verbatim>\<open>setInputMatrixTexture\<close> and \<^verbatim>\<open>executeProgram\<close> fail with
  \<^verbatim>\<open>No GPU program is currently set.\<close> and leave the context as it was.
\<close>

theorem guarded_operations_fail_fast:
  assumes d: "disposed c" and l: "\<not> disposed c'" and n: "program c' = None"
  shows "dispose e c = (Inl (Error disposedMessage), c) \<and>
         createMatrixTexture e rows columns c = (Inl (Error disposedMessage), c) \<and>
         uploadPixelDataToTexture e t px c = (Inl (Error disposedMessage), c) \<and>
         createPackedMatrixTexture e rows columns c = (Inl (Error disposedMessage), c) \<and>
         deleteMatrixTexture e t c = (Inl (Error disposedMessage), c) \<and>
         uploadMatrixToTexture e t rows columns matrix c = (Inl (Error disposedMessage), c) \<and>
         uploadMatrixToPackedTexture e t rows columns matrix c =
           (Inl (Error disposedMessage), c) \<and>
         downloadMatrixFromTexture e t rows columns c = (Inl (Error disposedMessage), c) \<and>
         downloadMatrixFromPackedTexture e t rows columns c =
           (Inl (Error disposedMessage), c) \<and>
         createProgram e src c = (Inl (Error disposedMessage), c) \<and>
         deleteProgram e prog c = (Inl (Error disposedMessage), c) \<and>
         setProgram e prog c = (Inl (Error disposedMessage), c) \<and>
         getUniformLocation e name c = (Inl (Error disposedMessage), c) \<and>
         setInputMatrixTexture e t uniformName unit c = (Inl (Error disposedMessage), c) \<and>
         setOutputMatrixTexture e t rows columns c = (Inl (Error disposedMessage), c) \<and>
         setOutputPackedMatrixTexture e t rows columns c = (Inl (Error disposedMessage), c) \<and>
         setOutputMatrixWriteRegion e startRow numRows startColumn numColumns c =
           (Inl (Error disposedMessage), c) \<and>
         executeProgram e c = (Inl (Error disposedMessage), c) \<and>
         blockUntilAllProgramsCompleted e c = (Inl (Error disposedMessage), c) \<and>
         disposed (snd (enableAutomaticDebugValidation enabled c)) \<and>
         disposed (snd (debugValidate e c)) \<and>
         setOutputPackedMatrixWriteRegion startRow numRows startColumn numColumns s =
           (Inl (Error ''setOutputPackedMatrixWriteRegion not implemented.''), s) \<and>
         getUniformLocation e name c' = (Inl (Error noProgramMessage), c') \<and>
         setInputMatrixTexture e t uniformName unit c' = (Inl (Error noProgramMessage), c') \<and>
         executeProgram e c' = (Inl (Error noProgramMessage), c')"
proof (intro conjI)
  show "dispose e c = (Inl (Error disposedMessage), c)"
    unfolding dispose_def by (rule seq_disposed [OF d])
  show "createMatrixTexture e rows columns c = (Inl (Error disposedMessage), c)"
    unfolding createMatrixTexture_def by (rule andThen_disposed [OF d])
  show "uploadPixelDataToTexture e t px c = (Inl (Error disposedMessage), c)"
    unfolding uploadPixelDataToTexture_def by (rule seq_disposed [OF d])
  show "createPackedMatrixTexture e rows columns c = (Inl (Error disposedMessage), c)"
    unfolding createPackedMatrixTexture_def by (rule andThen_disposed [OF d])
  show "deleteMatrixTexture e t c = (Inl (Error disposedMessage), c)"
    unfolding deleteMatrixTexture_def by (rule seq_disposed [OF d])
  show "uploadMatrixToTexture e t rows columns matrix c = (Inl (Error disposedMessage), c)"
    unfolding uploadMatrixToTexture_def by (rule seq_disposed [OF d])
  show "uploadMatrixToPackedTexture e t rows columns matrix c =
          (Inl (Error disposedMessage), c)"
    unfolding uploadMatrixToPackedTexture_def by (rule seq_disposed [OF d])
  show "downloadMatrixFromTexture e t rows columns c = (Inl (Error disposedMessage), c)"
    unfolding downloadMatrixFromTexture_def downloadMatrixDriver_def
    by (rule andThen_disposed [OF d])
  show "downloadMatrixFromPackedTexture e t rows columns c =
          (Inl (Error disposedMessage), c)"
    unfolding downloadMatrixFromPackedTexture_def downloadMatrixDriver_def
    by (rule andThen_disposed [OF d])
  show "createProgram e src c = (Inl (Error disposedMessage), c)"
    unfolding createProgram_def by (rule andThen_disposed [OF d])
  show "deleteProgram e prog c = (Inl (Error disposedMessage), c)"
    unfolding deleteProgram_def by (rule seq_disposed [OF d])
  show "setProgram e prog c = (Inl (Error disposedMessage), c)"
    unfolding setProgram_def by (rule seq_disposed [OF d])
  show "getUniformLocation e name c = (Inl (Error disposedMessage), c)"
    using d by (simp add: getUniformLocation_def andThen_def throwIfDisposed_dead)
  show "setInputMatrixTexture e t uniformName unit c = (Inl (Error disposedMessage), c)"
    unfolding setInputMatrixTexture_def by (rule seq_disposed [OF d])
  show "setOutputMatrixTexture e t rows columns c = (Inl (Error disposedMessage), c)"
    unfolding setOutputMatrixTexture_def setOutputMatrixTextureDriver_def
    by (rule seq_disposed [OF d])
  show "setOutputPackedMatrixTexture e t rows columns c = (Inl (Error disposedMessage), c)"
    unfolding setOutputPackedMatrixTexture_def by (rule seq_disposed [OF d])
  show "setOutputMatrixWriteRegion e startRow numRows startColumn numColumns c =
          (Inl (Error disposedMessage), c)"
    unfolding setOutputMatrixWriteRegion_def setOutputMatrixWriteRegionDriver_def
    by (rule seq_disposed [OF d])
  show "executeProgram e c = (Inl (Error disposedMessage), c)"
    unfolding executeProgram_def by (rule seq_disposed [OF d])
  show "blockUntilAllProgramsCompleted e c = (Inl (Error disposedMessage), c)"
    unfolding blockUntilAllProgramsCompleted_def by (rule seq_disposed [OF d])
  show "disposed (snd (enableAutomaticDebugValidation enabled c))"
    using d by (simp add: enableAutomaticDebugValidation_def ret_def glIssue_def)
  show "disposed (snd (debugValidate e c))"
    using d by (cases "program c") (simp_all add: debugValidate_def ret_def glCall_def Let_def)
  show "setOutputPackedMatrixWriteRegion startRow numRows startColumn numColumns s =
          (Inl (Error ''setOutputPackedMatrixWriteRegion not implemented.''), s)"
    by (simp add: setOutputPackedMatrixWriteRegion_def throw_def)
  show "getUniformLocation e name c' = (Inl (Error noProgramMessage), c')"
    using l n
    by (simp add: getUniformLocation_def andThen_def throwIfDisposed_live
        throwIfNoProgram_unbound)
  show "setInputMatrixTexture e t uniformName unit c' = (Inl (Error noProgramMessage), c')"
    unfolding setInputMatrixTexture_def by (rule seq_noProgram [OF l n])
  show "executeProgram e c' = (Inl (Error noProgramMessage), c')"
    unfolding executeProgram_def by (rule seq_noProgram [OF l n])
qed

text \<open>
  On the disposed example context \<^verbatim>\<open>dispose\<close>, a download and \<^verbatim>\<open>executeProgram\<close> fail
  with the disposed error; on the fresh context, which has no program,
  \<^verbatim>\<open>executeProgram\<close> fails with the no-program error.
\<close>

theorem guarded_operations_fail_fast_witness:
  "disposed disposedContext \<and> \<not> disposed exampleContext \<and> program exampleContext = None \<and>
   dispose exampleEnv disposedContext = (Inl (Error disposedMessage), disposedContext) \<and>
   downloadMatrixFromTexture exampleEnv 10 2 3 disposedContext =
     (Inl (Error disposedMessage), disposedContext) \<and>
   executeProgram exampleEnv disposedContext = (Inl (Error disposedMessage), disposedContext) \<and>
   executeProgram exampleEnv exampleContext = (Inl (Error noProgramMessage), exampleContext)"
proof -
  have d: "disposed disposedContext" by (simp add: example_defs)
  have l: "\<not> disposed exampleContext" by (simp add: example_defs)
  have n: "program exampleContext = None" by (simp add: example_defs)
  note all = guarded_operations_fail_fast [OF d l n, where e = exampleEnv and t = 10
      and rows = 2 and columns = 3 and px = 0 and matrix = "[]" and src = "[]"
      and prog = None and name = "[]" and uniformName = None and unit = 0
      and startRow = 0 and numRows = 1 and startColumn = 0 and numColumns = 1
      and enabled = True and s = disposedContext]
  from d l n all show ?thesis by blast
qed

subsection \<open>C5: disposing with bound resources\<close>

text \<open>
  Claim C5. Disposing a live context does not fail because a program or an output
  texture is still bound: when the driver accepts its calls, \<^verbatim>\<open>dispose\<close> returns
  normally, has written one leak warning for the bound program if there is one and one
  for the bound output texture if there is one (and nothing else), has unbound and
  deleted the framebuffer, the vertex buffer and the index buffer, lost the rendering
  context, and has marked the context disposed.
\<close>

theorem dispose_with_bound_resources:
  assumes "\<not> disposed c" "accepts e"
  shows "dispose e c =
           (Inr (),
            c\<lparr>console := console c @
                         (if program c \<noteq> None then [programLeakWarning] else []) @
                         (if outputTexture c \<noteq> None then [outputTextureLeakWarning] else []),
              gl := gl c @ [Finish,
                            BindFramebuffer None, DeleteFramebuffer (framebuffer c),
                            BindBuffer ARRAY_BUFFER None, DeleteBuffer (vertexBuffer c),
                            BindBuffer ELEMENT_ARRAY_BUFFER None, DeleteBuffer (indexBuffer c),
                            LoseContext],
              disposed := True\<rparr>)"
  using assms
  by (simp add: dispose_def throwIfDisposed_live glCall_accepts glIssue_def warn_def ret_def)

text \<open>The example context with program 7 and output texture 12 still bound.\<close>

theorem dispose_with_bound_resources_witness:
  "\<not> disposed busyContext \<and> accepts exampleEnv \<and>
   dispose exampleEnv busyContext =
     (Inr (), busyContext
        \<lparr>gl := [Finish, BindFramebuffer None, DeleteFramebuffer 3,
                BindBuffer ARRAY_BUFFER None, DeleteBuffer 1,
                BindBuffer ELEMENT_ARRAY_BUFFER None, DeleteBuffer 2, LoseContext],
         console := [programLeakWarning, outputTextureLeakWarning],
         disposed := True\<rparr>)"
proof -
  have live: "\<not> disposed busyContext" by (simp add: example_defs)
  from dispose_with_bound_resources [OF live accepts_exampleEnv]
  have "dispose exampleEnv busyContext =
     (Inr (), busyContext
        \<lparr>gl := [Finish, BindFramebuffer None, DeleteFramebuffer 3,
                BindBuffer ARRAY_BUFFER None, DeleteBuffer 1,
                BindBuffer ELEMENT_ARRAY_BUFFER None, DeleteBuffer 2, LoseContext],
         console := [programLeakWarning, outputTextureLeakWarning],
         disposed := True\<rparr>)"
    by (simp add: example_defs)
  with live accepts_exampleEnv show ?thesis by blast
qed

subsection \<open>C6: deleting what is bound clears the slot\<close>

text \<open>
  Claim C6. On a live context whose active program is \<open>p\<close>, \<^verbatim>\<open>deleteProgram\<close> applied
  to \<open>p\<close> empties the bound-program slot and then issues the delete, whatever else is
  bound and whatever the driver answers: the slot is empty also when the driver reports
  an error for the delete. On a live context whose bound output texture is \<open>t\<close>,
  \<^verbatim>\<open>deleteMatrixTexture\<close> applied to \<open>t\<close> first unbinds the colour texture from the
  framebuffer; if the driver reports an error for that, the call stops there and no
  delete is issued; otherwise the bound-output slot is emptied and then the delete is
  issued, so the slot is empty also when the driver reports an error for the delete.
  In every state of the context and with every driver, a program or texture whose
  delete call was issued is not in its slot afterwards.
\<close>

theorem delete_clears_bound_slots:
  assumes live: "\<not> disposed c" and prog: "program c = Some p"
    and live': "\<not> disposed c'" and out: "outputTexture c' = Some t"
    and acc: "accepts e"
  shows "program (snd (deleteProgram e' (Some p) c)) = None \<and>
         deleteProgram e' (Some p) c =
           (if rejects e' (gl c) (DeleteProgram p) then Inl (DriverError (DeleteProgram p))
            else Inr (),
            c\<lparr>program := None, gl := gl c @ [DeleteProgram p]\<rparr>) \<and>
         deleteProgram e (Some p) c =
           (Inr (), c\<lparr>program := None, gl := gl c @ [DeleteProgram p]\<rparr>) \<and>
         deleteMatrixTexture e t c' =
           (Inr (), c'\<lparr>outputTexture := None,
                       gl := gl c' @ [UnbindColorTextureFromFramebuffer (framebuffer c'),
                                      DeleteTexture t]\<rparr>) \<and>
         deleteMatrixTexture e' t c' =
           (if rejects e' (gl c') (UnbindColorTextureFromFramebuffer (framebuffer c'))
            then (Inl (DriverError (UnbindColorTextureFromFramebuffer (framebuffer c'))),
                  c'\<lparr>gl := gl c' @ [UnbindColorTextureFromFramebuffer (framebuffer c')]\<rparr>)
            else (if rejects e' (gl c' @ [UnbindColorTextureFromFramebuffer (framebuffer c')])
                       (DeleteTexture t)
                  then Inl (DriverError (DeleteTexture t)) else Inr (),
                  c'\<lparr>outputTexture := None,
                      gl := gl c' @ [UnbindColorTextureFromFramebuffer (framebuffer c'),
                                     DeleteTexture t]\<rparr>)) \<and>
         (DeleteProgram q \<in> set (drop (length (gl s)) (gl (snd (deleteProgram e' (Some q) s))))
            \<longrightarrow> program (snd (deleteProgram e' (Some q) s)) \<noteq> Some q) \<and>
         (DeleteTexture u \<in> set (drop (length (gl s)) (gl (snd (deleteMatrixTexture e' u s))))
            \<longrightarrow> outputTexture (snd (deleteMatrixTexture e' u s)) \<noteq> Some u)"
proof (intro conjI)
  show anyp: "deleteProgram e' (Some p) c =
           (if rejects e' (gl c) (DeleteProgram p) then Inl (DriverError (DeleteProgram p))
            else Inr (),
            c\<lparr>program := None, gl := gl c @ [DeleteProgram p]\<rparr>)"
    using live prog
    by (simp add: deleteProgram_def throwIfDisposed_live ret_def glCall_def Let_def)
  then show "program (snd (deleteProgram e' (Some p) c)) = None" by simp
  show "deleteProgram e (Some p) c =
           (Inr (), c\<lparr>program := None, gl := gl c @ [DeleteProgram p]\<rparr>)"
    using live prog acc
    by (simp add: deleteProgram_def throwIfDisposed_live ret_def glCall_accepts)
  show "deleteMatrixTexture e t c' =
           (Inr (), c'\<lparr>outputTexture := None,
                       gl := gl c' @ [UnbindColorTextureFromFramebuffer (framebuffer c'),
                                      DeleteTexture t]\<rparr>)"
    using live' out acc
    by (simp add: deleteMatrixTexture_def throwIfDisposed_live ret_def glCall_accepts)
  show "deleteMatrixTexture e' t c' =
           (if rejects e' (gl c') (UnbindColorTextureFromFramebuffer (framebuffer c'))
            then (Inl (DriverError (UnbindColorTextureFromFramebuffer (framebuffer c'))),
                  c'\<lparr>gl := gl c' @ [UnbindColorTextureFromFramebuffer (framebuffer c')]\<rparr>)
            else (if rejects e' (gl c' @ [UnbindColorTextureFromFramebuffer (framebuffer c')])
                       (DeleteTexture t)
                  then Inl (DriverError (DeleteTexture t)) else Inr (),
                  c'\<lparr>outputTexture := None,
                      gl := gl c' @ [UnbindColorTextureFromFramebuffer (framebuffer c'),
                                     DeleteTexture t]\<rparr>))"
    using live' out
    by (simp add: deleteMatrixTexture_def throwIfDisposed_live ret_def glCall_def Let_def)
  show "DeleteProgram q \<in> set (drop (length (gl s)) (gl (snd (deleteProgram e' (Some q) s))))
            \<longrightarrow> program (snd (deleteProgram e' (Some q) s)) \<noteq> Some q"
    by (cases "disposed s")
       (auto simp: deleteProgram_def throwIfDisposed_def throw_def ret_def glCall_def Let_def)
  show "DeleteTexture u \<in> set (drop (length (gl s)) (gl (snd (deleteMatrixTexture e' u s))))
            \<longrightarrow> outputTexture (snd (deleteMatrixTexture e' u s)) \<noteq> Some u"
    by (cases "disposed s")
       (auto simp: deleteMatrixTexture_def throwIfDisposed_def throw_def ret_def glCall_def
          Let_def)
qed

text \<open>
  A context with only program 7 bound and a context with only output texture 12 bound,
  each with the accepting driver and with the driver that reports an error for every
  delete: the slot is empty after the delete call in all four runs.
\<close>

theorem delete_clears_bound_slots_witness:
  "\<not> disposed programContext \<and> program programContext = Some 7 \<and>
   \<not> disposed outputContext \<and> outputTexture outputContext = Some 12 \<and>
   accepts exampleEnv \<and>
   deleteProgram exampleEnv (Some 7) programContext =
     (Inr (), programContext\<lparr>program := None, gl := [DeleteProgram 7]\<rparr>) \<and>
   deleteProgram deleteRejectingEnv (Some 7) programContext =
     (Inl (DriverError (DeleteProgram 7)),
      programContext\<lparr>program := None, gl := [DeleteProgram 7]\<rparr>) \<and>
   deleteMatrixTexture exampleEnv 12 outputContext =
     (Inr (), outputContext\<lparr>outputTexture := None,
                             gl := [UnbindColorTextureFromFramebuffer 3, DeleteTexture 12]\<rparr>) \<and>
   deleteMatrixTexture deleteRejectingEnv 12 outputContext =
     (Inl (DriverError (DeleteTexture 12)),
      outputContext\<lparr>outputTexture := None,
                    gl := [UnbindColorTextureFromFramebuffer 3, DeleteTexture 12]\<rparr>)"
proof -
  have h: "\<not> disposed programContext" "program programContext = Some 7"
    "\<not> disposed outputContext" "outputTexture outputContext = Some 12"
    by (simp_all add: programContext_def outputContext_def exampleContext_def)
  note inst = delete_clears_bound_slots [OF h accepts_exampleEnv,
      where e' = deleteRejectingEnv and q = 7 and u = 12 and s = busyContext]
  from inst have
    "deleteProgram exampleEnv (Some 7) programContext =
       (Inr (), programContext\<lparr>program := None, gl := [DeleteProgram 7]\<rparr>)"
    "deleteProgram deleteRejectingEnv (Some 7) programContext =
       (Inl (DriverError (DeleteProgram 7)),
        programContext\<lparr>program := None, gl := [DeleteProgram 7]\<rparr>)"
    "deleteMatrixTexture exampleEnv 12 outputContext =
       (Inr (), outputContext\<lparr>outputTexture := None,
                               gl := [UnbindColorTextureFromFramebuffer 3, DeleteTexture 12]\<rparr>)"
    "deleteMatrixTexture deleteRejectingEnv 12 outputContext =
       (Inl (DriverError (DeleteTexture 12)),
        outputContext\<lparr>outputTexture := None,
                      gl := [UnbindColorTextureFromFramebuffer 3, DeleteTexture 12]\<rparr>)"
    by (simp_all add: deleteRejectingEnv_def exampleEnv_def programContext_def
        outputContext_def exampleContext_def)
  with h accepts_exampleEnv show ?thesis by blast
qed

subsection \<open>C7: compiling a program\<close>

text \<open>
  Claim C7. \<^verbatim>\<open>compileProgram\<close> keeps no cache: on every live context, whatever calls
  it has seen before, it pairs each input with the variable name at its position and
  its (logical shape, texture shape), hands these, the output's shapes, the
  descriptor's user code and whether \<^verbatim>\<open>supportsBroadcasting\<close> is \<^verbatim>\<open>true\<close> to the shader
  compiler, and when that returns a source and the driver accepts, it creates, attaches
  and links a program for that source through the context and returns a binary with
  that program and source. Whenever it returns a binary, with any driver and compiler,
  the binary's \<^verbatim>\<open>inShapeInfos\<close> and \<^verbatim>\<open>outShapeInfo\<close> are the shapes of the inputs and
  the output it was called with, and its descriptor is the one it was called with.
\<close>

theorem compileProgram_snapshot:
  assumes live: "\<not> disposed c" and acc: "accepts e"
    and mk: "makeShader (inputInfosOf prog inputs) (shapeInfoOf output) (userCode prog)
               (supportsBroadcasting prog = Some True) = Inr src"
  shows "compileProgram e makeShader prog inputs output c =
           (let fragmentShader = handle e (gl c) (CreateFragmentShader src);
                vertexShader = handle e (gl c @ [CreateFragmentShader src]) CreateVertexShader;
                p = handle e (gl c @ [CreateFragmentShader src, CreateVertexShader]) CreateProgram
            in (Inr \<lparr>webGLProgram = p, gpgpuProgram = prog, source = src,
                     inShapeInfos = map shapeInfoOf inputs,
                     outShapeInfo = shapeInfoOf output\<rparr>,
                c\<lparr>gl := gl c @ [CreateFragmentShader src, CreateVertexShader, CreateProgram,
                                  AttachShader p vertexShader, AttachShader p fragmentShader,
                                  LinkProgram p] @
                             (if autoDebugValidate c then [ValidateProgram p] else [])\<rparr>)) \<and>
         (\<forall>binary c1. compileProgram e' makeShader' prog inputs output c' = (Inr binary, c1) \<longrightarrow>
            inShapeInfos binary = map shapeInfoOf inputs \<and>
            outShapeInfo binary = shapeInfoOf output \<and>
            gpgpuProgram binary = prog)"
proof
  have infos: "map (\<lambda>(i, input).
                  (jsIndex (variableNames prog) i,
                   \<lparr>logicalShape = shape input, texShape = getTextureShapeRC input\<rparr>))
                (enumerate 0 inputs) = inputInfosOf prog inputs"
    by (simp add: inputInfosOf_def shapeInfoOf_def)
  have out: "\<lparr>logicalShape = shape output, texShape = getTextureShapeRC output\<rparr> =
               shapeInfoOf output"
    by (simp add: shapeInfoOf_def)
  have snds: "map snd (inputInfosOf prog inputs) = map shapeInfoOf inputs"
    unfolding inputInfosOf_def by (rule map_snd_inputInfos)
  show "compileProgram e makeShader prog inputs output c =
           (let fragmentShader = handle e (gl c) (CreateFragmentShader src);
                vertexShader = handle e (gl c @ [CreateFragmentShader src]) CreateVertexShader;
                p = handle e (gl c @ [CreateFragmentShader src, CreateVertexShader]) CreateProgram
            in (Inr \<lparr>webGLProgram = p, gpgpuProgram = prog, source = src,
                     inShapeInfos = map shapeInfoOf inputs,
                     outShapeInfo = shapeInfoOf output\<rparr>,
                c\<lparr>gl := gl c @ [CreateFragmentShader src, CreateVertexShader, CreateProgram,
                                  AttachShader p vertexShader, AttachShader p fragmentShader,
                                  LinkProgram p] @
                             (if autoDebugValidate c then [ValidateProgram p] else [])\<rparr>))"
    unfolding compileProgram_def infos out
    by (simp add: Let_def snds mk lift_def andThen_def createProgram_run [OF live acc] ret_def)
next
  have snds: "map snd (map (\<lambda>(i, input).
                  (jsIndex (variableNames prog) i,
                   \<lparr>logicalShape = shape input, texShape = getTextureShapeRC input\<rparr>))
                (enumerate 0 inputs)) = map shapeInfoOf inputs"
    using map_snd_inputInfos [of "jsIndex (variableNames prog)" shapeInfoOf 0 inputs]
    by (simp add: shapeInfoOf_def)
  show "\<forall>binary c1. compileProgram e' makeShader' prog inputs output c' = (Inr binary, c1) \<longrightarrow>
            inShapeInfos binary = map shapeInfoOf inputs \<and>
            outShapeInfo binary = shapeInfoOf output \<and>
            gpgpuProgram binary = prog"
    unfolding compileProgram_def Let_def snds
    by (auto simp: andThen_def lift_def ret_def shapeInfoOf_def split: sum.splits prod.splits)
qed

text \<open>
  Compiling the example descriptor on a fresh context: the shaders get the handles 0
  and 1, the program the handle 2.
\<close>

theorem compileProgram_snapshot_witness:
  "\<not> disposed exampleContext \<and> accepts exampleEnv \<and>
   exampleShaderCompiler (inputInfosOf exampleProgram [arrayA, arrayB]) (shapeInfoOf arrayOut)
     (userCode exampleProgram) (supportsBroadcasting exampleProgram = Some True) =
     Inr ''void main() {}'' \<and>
   compileProgram exampleEnv exampleShaderCompiler exampleProgram [arrayA, arrayB] arrayOut
     exampleContext =
     (Inr (exampleBinary\<lparr>webGLProgram := 2\<rparr>),
      exampleContext\<lparr>gl := [CreateFragmentShader ''void main() {}'', CreateVertexShader,
                             CreateProgram, AttachShader 2 1, AttachShader 2 0,
                             LinkProgram 2]\<rparr>)"
proof -
  have live: "\<not> disposed exampleContext" by (simp add: example_defs)
  have mk: "exampleShaderCompiler (inputInfosOf exampleProgram [arrayA, arrayB])
     (shapeInfoOf arrayOut) (userCode exampleProgram)
     (supportsBroadcasting exampleProgram = Some True) = Inr ''void main() {}''"
    by (simp add: exampleShaderCompiler_def)
  from compileProgram_snapshot [of exampleContext exampleEnv exampleShaderCompiler
      exampleProgram "[arrayA, arrayB]" arrayOut "''void main() {}''",
      OF live accepts_exampleEnv mk]
  have "compileProgram exampleEnv exampleShaderCompiler exampleProgram [arrayA, arrayB] arrayOut
     exampleContext =
     (Inr (exampleBinary\<lparr>webGLProgram := 2\<rparr>),
      exampleContext\<lparr>gl := [CreateFragmentShader ''void main() {}'', CreateVertexShader,
                             CreateProgram, AttachShader 2 1, AttachShader 2 0,
                             LinkProgram 2]\<rparr>)"
    by (simp add: Let_def exampleEnv_def shapeInfoOf_def getTextureShapeRC_def
        exampleContext_def exampleBinary_def arrayA_def arrayB_def arrayOut_def)
  with live accepts_exampleEnv mk show ?thesis by blast
qed

subsection \<open>C8: binding the output texture\<close>

text \<open>
  Claim C8. On a live context with an accepting driver,
  \<^verbatim>\<open>setOutputMatrixTexture(texture, rows, columns)\<close> attaches the texture to the
  framebuffer (validating the framebuffer in debug mode), records it as the bound
  output texture, and sets the viewport and then the scissor rectangle to the origin
  with width \<open>columns\<close> and height \<open>rows\<close>: the logical (rows, columns) order is
  inverted into (width, height).
\<close>

theorem setOutputMatrixTexture_viewport:
  assumes "\<not> disposed c" "accepts e"
  shows "setOutputMatrixTexture e t rows columns c =
           (Inr (), c\<lparr>outputTexture := Some t,
                      gl := gl c @ [BindColorTextureToFramebuffer t (framebuffer c)] @
                            (if autoDebugValidate c then [ValidateFramebuffer] else []) @
                            [Viewport 0 0 columns rows, Scissor 0 0 columns rows]\<rparr>)"
  using assms by (simp add: setOutputMatrixTexture_def setOutputMatrixTextureDriver_run)

text \<open>A texture of 2 rows and 3 columns: the viewport is 3 wide and 2 high.\<close>

theorem setOutputMatrixTexture_viewport_witness:
  "\<not> disposed exampleContext \<and> accepts exampleEnv \<and>
   setOutputMatrixTexture exampleEnv 12 2 3 exampleContext =
     (Inr (), exampleContext\<lparr>outputTexture := Some 12,
                             gl := [BindColorTextureToFramebuffer 12 3,
                                    Viewport 0 0 3 2, Scissor 0 0 3 2]\<rparr>)"
proof -
  have live: "\<not> disposed exampleContext" by (simp add: example_defs)
  from setOutputMatrixTexture_viewport [OF live accepts_exampleEnv, of 12 2 3]
  have "setOutputMatrixTexture exampleEnv 12 2 3 exampleContext =
     (Inr (), exampleContext\<lparr>outputTexture := Some 12,
                             gl := [BindColorTextureToFramebuffer 12 3,
                                    Viewport 0 0 3 2, Scissor 0 0 3 2]\<rparr>)"
    by (simp add: example_defs)
  with live accepts_exampleEnv show ?thesis by blast
qed

subsection \<open>C9: a wrong number of inputs\<close>

text \<open>
  Claim C9. A binary compiled with \<open>N\<close> inputs and run with \<open>M \<noteq> N\<close> inputs makes
  \<^verbatim>\<open>runProgram\<close> throw an error whose message holds both counts. The error does not
  depend on any shape, and the context returned with it is the one the call started
  from, for every driver and hook: no shape was compared and nothing was bound.
\<close>

theorem runProgram_rejects_wrong_arity:
  assumes "length (inShapeInfos binary) \<noteq> length inputs"
  shows "runProgram e binary inputs output customSetup c =
           (Inl (Error (''Binary was compiled with '' @ showNat (length (inShapeInfos binary)) @
                        '' inputs, but was executed with '' @ showNat (length inputs) @
                        '' inputs'')), c)"
  using assms
  by (simp add: runProgram_def validateBinaryAndProgram_def lift_def inputCountMessage_def)

text \<open>The example binary, compiled for two inputs, run with one.\<close>

theorem runProgram_rejects_wrong_arity_witness:
  "length (inShapeInfos exampleBinary) \<noteq> length [arrayA] \<and>
   runProgram exampleEnv exampleBinary [arrayA] arrayOut None exampleContext =
     (Inl (Error ''Binary was compiled with 2 inputs, but was executed with 1 inputs''),
      exampleContext)"
proof -
  have h: "length (inShapeInfos exampleBinary) \<noteq> length [arrayA]"
    by (simp add: exampleBinary_def)
  from runProgram_rejects_wrong_arity [OF h]
  have "runProgram exampleEnv exampleBinary [arrayA] arrayOut None exampleContext =
     (Inl (Error ''Binary was compiled with 2 inputs, but was executed with 1 inputs''),
      exampleContext)"
    by (simp add: exampleBinary_def showNat.simps digitChar_def)
  with h show ?thesis by blast
qed

subsection \<open>C10: a download puts the framebuffer back\<close>

text \<open>
  Claim C10. On a live context with an accepting driver, \<^verbatim>\<open>downloadMatrixFromTexture\<close>
  and \<^verbatim>\<open>downloadMatrixFromPackedTexture\<close> attach the texture to read, read it back, and
  then attach the bound output texture again if there is one (validating the framebuffer
  in debug mode) and otherwise unbind the colour attachment; so the colour attachment
  after the download is the bound output texture, or none. In every state and with
  every driver the bound-program and bound-output-texture slots after a download are
  the ones before it.
\<close>

theorem download_restores_framebuffer:
  assumes live: "\<not> disposed c" and acc: "accepts e"
  shows "downloadMatrixFromTexture e t rows columns c =
           (Inr (pixels e (gl c @ [BindColorTextureToFramebuffer t (framebuffer c)])
                   (DownloadMatrixFromOutputTexture rows columns)),
            c\<lparr>gl := gl c @ [BindColorTextureToFramebuffer t (framebuffer c),
                              DownloadMatrixFromOutputTexture rows columns] @
                         restoreCalls c\<rparr>) \<and>
         downloadMatrixFromPackedTexture e t rows columns c =
           (Inr (pixels e (gl c @ [BindColorTextureToFramebuffer t (framebuffer c)])
                   (DownloadMatrixFromPackedOutputTexture rows columns)),
            c\<lparr>gl := gl c @ [BindColorTextureToFramebuffer t (framebuffer c),
                              DownloadMatrixFromPackedOutputTexture rows columns] @
                         restoreCalls c\<rparr>) \<and>
         colorAttachment (gl (snd (downloadMatrixFromTexture e t rows columns c))) =
           outputTexture c \<and>
         colorAttachment (gl (snd (downloadMatrixFromPackedTexture e t rows columns c))) =
           outputTexture c \<and>
         program (snd (downloadMatrixFromTexture e' t rows columns c')) = program c' \<and>
         outputTexture (snd (downloadMatrixFromTexture e' t rows columns c')) = outputTexture c' \<and>
         program (snd (downloadMatrixFromPackedTexture e' t rows columns c')) = program c' \<and>
         outputTexture (snd (downloadMatrixFromPackedTexture e' t rows columns c')) =
           outputTexture c'"
proof -
  have r1: "downloadMatrixFromTexture e t rows columns c =
           (Inr (pixels e (gl c @ [BindColorTextureToFramebuffer t (framebuffer c)])
                   (DownloadMatrixFromOutputTexture rows columns)),
            c\<lparr>gl := gl c @ [BindColorTextureToFramebuffer t (framebuffer c),
                              DownloadMatrixFromOutputTexture rows columns] @
                         restoreCalls c\<rparr>)"
    unfolding downloadMatrixFromTexture_def by (rule downloadMatrixDriver_result [OF live acc])
  have r2: "downloadMatrixFromPackedTexture e t rows columns c =
           (Inr (pixels e (gl c @ [BindColorTextureToFramebuffer t (framebuffer c)])
                   (DownloadMatrixFromPackedOutputTexture rows columns)),
            c\<lparr>gl := gl c @ [BindColorTextureToFramebuffer t (framebuffer c),
                              DownloadMatrixFromPackedOutputTexture rows columns] @
                         restoreCalls c\<rparr>)"
    unfolding downloadMatrixFromPackedTexture_def
    by (rule downloadMatrixDriver_result [OF live acc])
  have a1: "colorAttachment (gl (snd (downloadMatrixFromTexture e t rows columns c))) =
           outputTexture c"
    unfolding r1 using colorAttachment_restore [of "gl c"] by simp
  have a2: "colorAttachment (gl (snd (downloadMatrixFromPackedTexture e t rows columns c))) =
           outputTexture c"
    unfolding r2 using colorAttachment_restore [of "gl c"] by simp
  have s1: "program (snd (downloadMatrixFromTexture e' t rows columns c')) = program c' \<and>
         outputTexture (snd (downloadMatrixFromTexture e' t rows columns c')) = outputTexture c'"
    unfolding downloadMatrixFromTexture_def
    by (rule downloadMatrixDriver_slots) (rule glRead_slots)
  have s2: "program (snd (downloadMatrixFromPackedTexture e' t rows columns c')) = program c' \<and>
         outputTexture (snd (downloadMatrixFromPackedTexture e' t rows columns c')) =
           outputTexture c'"
    unfolding downloadMatrixFromPackedTexture_def
    by (rule downloadMatrixDriver_slots) (rule glRead_slots)
  from r1 r2 a1 a2 s1 s2 show ?thesis by blast
qed

text \<open>
  A download of texture 10 while texture 12 is the bound output: texture 12 is attached
  again; the slots of the disposed context are untouched by the failing call.
\<close>

theorem download_restores_framebuffer_witness:
  "\<not> disposed busyContext \<and> accepts exampleEnv \<and>
   downloadMatrixFromTexture exampleEnv 10 2 3 busyContext =
     (Inr [], busyContext\<lparr>gl := [BindColorTextureToFramebuffer 10 3,
                                  DownloadMatrixFromOutputTexture 2 3,
                                  BindColorTextureToFramebuffer 12 3]\<rparr>) \<and>
   colorAttachment (gl (snd (downloadMatrixFromTexture exampleEnv 10 2 3 busyContext))) =
     Some 12 \<and>
   outputTexture (snd (downloadMatrixFromPackedTexture exampleEnv 10 2 3 disposedContext)) =
     None"
proof -
  have live: "\<not> disposed busyContext" by (simp add: example_defs)
  note all = download_restores_framebuffer [OF live accepts_exampleEnv,
      where t = 10 and rows = 2 and columns = 3 and e' = exampleEnv and c' = disposedContext]
  from all have "downloadMatrixFromTexture exampleEnv 10 2 3 busyContext =
     (Inr [], busyContext\<lparr>gl := [BindColorTextureToFramebuffer 10 3,
                                  DownloadMatrixFromOutputTexture 2 3,
                                  BindColorTextureToFramebuffer 12 3]\<rparr>)"
    by (simp add: restoreCalls_def exampleEnv_def example_defs)
  moreover have "outputTexture busyContext = Some 12" "outputTexture disposedContext = None"
    by (simp_all add: example_defs)
  moreover from all
  have "colorAttachment (gl (snd (downloadMatrixFromTexture exampleEnv 10 2 3 busyContext))) =
     outputTexture busyContext"
    by blast
  moreover from all
  have "outputTexture (snd (downloadMatrixFromPackedTexture exampleEnv 10 2 3 disposedContext)) =
     outputTexture disposedContext"
    by blast
  ultimately show ?thesis using live accepts_exampleEnv by simp
qed

end
